theory Spec2Isabelle
  imports Main "HOL-Library.Sublist" "HOL-Library.AList"
begin

section \<open>Text\<close>

text \<open>
  Python strings are modelled as Isabelle strings. Characters 0 to 127 are ASCII; the
  few characters of the source's literals that lie outside ASCII (accented letters,
  dashes, the bullet) are written as their UTF-8 bytes. Case mapping and the whitespace
  class are those of ASCII text: \<open>str.lower\<close> changes the letters A to Z only, and
  \<open>str.isspace\<close> holds for tab, line feed, vertical tab, form feed, carriage return,
  the four separators 0x1C to 0x1F and the space.
\<close>

definition py_isspace :: "char \<Rightarrow> bool" where
  "py_isspace c \<longleftrightarrow>
     c \<in> set [CHR 0x09, CHR 0x0A, CHR 0x0B, CHR 0x0C, CHR 0x0D,
               CHR 0x1C, CHR 0x1D, CHR 0x1E, CHR 0x1F, CHR 0x20]"

definition upper_letters :: string where
  "upper_letters = ''ABCDEFGHIJKLMNOPQRSTUVWXYZ''"

definition lower_letters :: string where
  "lower_letters = ''abcdefghijklmnopqrstuvwxyz''"

definition lower_char :: "char \<Rightarrow> char" where
  "lower_char c = (case map_of (zip upper_letters lower_letters) c of Some d \<Rightarrow> d | None \<Rightarrow> c)"

definition upper_char :: "char \<Rightarrow> char" where
  "upper_char c = (case map_of (zip lower_letters upper_letters) c of Some d \<Rightarrow> d | None \<Rightarrow> c)"

text \<open>\<open>s.lower()\<close>\<close>

definition lower :: "string \<Rightarrow> string" where
  "lower s = map lower_char s"

text \<open>\<open>s.capitalize()\<close>: the first character in upper case, the others in lower case.\<close>

fun capitalize :: "string \<Rightarrow> string" where
  "capitalize [] = []"
| "capitalize (c # cs) = upper_char c # lower cs"

text \<open>\<open>s.strip()\<close>\<close>

definition strip :: "string \<Rightarrow> string" where
  "strip s = rev (dropWhile py_isspace (rev (dropWhile py_isspace s)))"

text \<open>\<open>sub in s\<close>\<close>

fun contains :: "string \<Rightarrow> string \<Rightarrow> bool" where
  "contains sub [] \<longleftrightarrow> sub = []"
| "contains sub (c # cs) \<longleftrightarrow> prefix sub (c # cs) \<or> contains sub cs"

text \<open>\<open>s.endswith(e)\<close>\<close>

definition endswith :: "string \<Rightarrow> string \<Rightarrow> bool" where
  "endswith s e \<longleftrightarrow> prefix (rev e) (rev s)"

text \<open>\<open>s.split(sep)\<close> for a separator of one character: never the empty list.\<close>

fun split :: "char \<Rightarrow> string \<Rightarrow> string list" where
  "split sep [] = [[]]"
| "split sep (c # cs) =
     (if c = sep then [] # split sep cs
      else (case split sep cs of [] \<Rightarrow> [[c]] | p # ps \<Rightarrow> (c # p) # ps))"

text \<open>\<open>sep.join(parts)\<close>\<close>

fun join :: "string \<Rightarrow> string list \<Rightarrow> string" where
  "join sep [] = []"
| "join sep [p] = p"
| "join sep (p # q # ps) = p @ sep @ join sep (q # ps)"

text \<open>A case-insensitive \<open>re.search\<close> for one of several literal alternatives.\<close>

definition search_any_ci :: "string list \<Rightarrow> string \<Rightarrow> bool" where
  "search_any_ci words s \<longleftrightarrow> (\<exists>w \<in> set words. contains w (lower s))"

section \<open>Values of \<open>json.loads\<close>\<close>

text \<open>
  The values the standard JSON decoder produces. A float is kept as its \<open>repr\<close>; a
  dict is an association list in insertion order (looked up with \<open>map_of\<close>, stored with
  \<open>AList.update\<close>, which overwrites in place or appends).
\<close>

datatype json =
    JNull
  | JBool bool
  | JInt int
  | JFloat string
  | JStr string
  | JArr "json list"
  | JObj "(string \<times> json) list"

text \<open>Python truthiness of such a value.\<close>

fun truthy :: "json \<Rightarrow> bool" where
  "truthy JNull = False"
| "truthy (JBool b) = b"
| "truthy (JInt n) = (n \<noteq> 0)"
| "truthy (JFloat r) = (r \<noteq> ''0.0'' \<and> r \<noteq> ''-0.0'')"
| "truthy (JStr s) = (s \<noteq> [])"
| "truthy (JArr xs) = (xs \<noteq> [])"
| "truthy (JObj kv) = (kv \<noteq> [])"

text \<open>\<open>d.get(k, default)\<close>\<close>

definition dict_get :: "(string \<times> json) list \<Rightarrow> string \<Rightarrow> json \<Rightarrow> json" where
  "dict_get kv k d = (case map_of kv k of Some v \<Rightarrow> v | None \<Rightarrow> d)"

text \<open>
  The exceptions that can leave a function of the pipeline; \<open>ExternalError\<close> is any
  exception raised by an object the pipeline is given.
\<close>

datatype error = ExternalError | TypeError | AttributeError | NameError

section \<open>\<open>utils.py\<close>: generic helpers\<close>

subsection \<open>\<open>response_text\<close>\<close>

text \<open>
  What \<open>agent.run\<close> returns is an arbitrary object. \<open>response_text\<close> looks at its
  attributes, at its items when it is a dict, and at \<open>str(res)\<close>. An attribute or item is
  recorded with \<open>Some s\<close> when its value is the string \<open>s\<close> and with \<open>None\<close> when its value
  is not a string; \<open>res_str\<close> is \<open>None\<close> when \<open>str(res)\<close> raises.
\<close>

record agent_result =
  res_attrs :: "(string \<times> string option) list"
  res_items :: "(string \<times> string option) list option"
  res_str :: "string option"

text \<open>\<open>isinstance(val, str) and val.strip()\<close>, for \<open>val\<close> looked up under one name.\<close>

definition usable_text :: "(string \<times> string option) list \<Rightarrow> string \<Rightarrow> string option" where
  "usable_text kv k =
     (case map_of kv k of
        Some (Some s) \<Rightarrow> if strip s \<noteq> [] then Some s else None
      | _ \<Rightarrow> None)"

text \<open>The first name of the list whose value is usable.\<close>

fun first_usable :: "(string \<times> string option) list \<Rightarrow> string list \<Rightarrow> string option" where
  "first_usable kv [] = None"
| "first_usable kv (k # ks) =
     (case usable_text kv k of Some s \<Rightarrow> Some s | None \<Rightarrow> first_usable kv ks)"

definition response_text :: "agent_result \<Rightarrow> string" where
  "response_text res =
     (case first_usable (res_attrs res) [''text'', ''output'', ''response'', ''content''] of
        Some s \<Rightarrow> s
      | None \<Rightarrow>
          (case (case res_items res of
                   Some kv \<Rightarrow> first_usable kv [''content'', ''text'', ''output'']
                 | None \<Rightarrow> None) of
             Some s \<Rightarrow> s
           | None \<Rightarrow> (case res_str res of Some s \<Rightarrow> s | None \<Rightarrow> [])))"

subsection \<open>\<open>parse_json_safe\<close>\<close>

text \<open>
  The regular expression \<open>(\{[\s\S]*\}|\[[\s\S]*\])\<close> anchored at the start of a
  string: the first alternative needs an opening brace there and a closing brace
  later, and its greedy star runs to the last closing brace; the second alternative
  is the same with brackets. \<open>upto_last c s\<close> is the longest prefix of \<open>s\<close> that ends
  with \<open>c\<close>.
\<close>

fun upto_last :: "char \<Rightarrow> string \<Rightarrow> string option" where
  "upto_last c [] = None"
| "upto_last c (x # xs) =
     (case upto_last c xs of
        Some r \<Rightarrow> Some (x # r)
      | None \<Rightarrow> if x = c then Some [x] else None)"

definition literal_at :: "string \<Rightarrow> string option" where
  "literal_at s =
     (case s of
        [] \<Rightarrow> None
      | x # xs \<Rightarrow>
          (case (if x = CHR ''{'' then upto_last CHR ''}'' xs else None) of
             Some r \<Rightarrow> Some (x # r)
           | None \<Rightarrow>
               (case (if x = CHR ''['' then upto_last CHR '']'' xs else None) of
                  Some r \<Rightarrow> Some (x # r)
                | None \<Rightarrow> None)))"

text \<open>\<open>re.search\<close>: the match at the leftmost position that has one.\<close>

fun search_literal :: "string \<Rightarrow> string option" where
  "search_literal [] = None"
| "search_literal (x # xs) =
     (case literal_at (x # xs) of
        Some m \<Rightarrow> Some m
      | None \<Rightarrow> search_literal xs)"

text \<open>
  \<open>json.loads\<close> belongs to the standard library; it is the parameter \<open>loads\<close>, which
  gives \<open>None\<close> where the decoder raises.
\<close>

definition parse_json_safe :: "(string \<Rightarrow> json option) \<Rightarrow> string \<Rightarrow> json \<Rightarrow> json" where
  "parse_json_safe loads text dflt =
     (if text = [] then dflt
      else
        (case loads text of
           Some v \<Rightarrow> v
         | None \<Rightarrow>
             (case search_literal text of
                Some candidate \<Rightarrow>
                  (case loads candidate of Some v \<Rightarrow> v | None \<Rightarrow> dflt)
              | None \<Rightarrow> dflt)))"

section \<open>\<open>schemas.py\<close>\<close>

text \<open>
  The pydantic models. A payload class has one field, a list that defaults to the
  empty list, and is modelled as that list. Field names that occur in several classes
  carry a suffix.
\<close>

record Company =
  name :: string
  website :: string
  why_fit :: string

record Contact =
  name_c :: string
  role :: string
  email :: "string option"
  inferred :: "bool option"
  source :: "string option"

record ContactsPerCompany =
  company_c :: string
  contacts :: "Contact list"

record ResearchPerCompany =
  company_r :: string
  insights :: "string list"

record EmailItem =
  company_e :: string
  contact :: string
  subject :: string
  body :: string

type_synonym CompaniesPayload = "Company list"
type_synonym ContactsPayload = "ContactsPerCompany list"
type_synonym ResearchPayload = "ResearchPerCompany list"
type_synonym EmailsPayload = "EmailItem list"

subsection \<open>Validation\<close>

text \<open>
  Validation of decoded JSON by pydantic, in its default (lax) mode: unknown keys are
  ignored, a \<open>str\<close> field takes a string only, an \<open>Optional\<close> field also takes \<open>null\<close>
  and may be absent, a list field takes a list only, a nested model takes a dict, and a
  \<open>bool\<close> field also takes 0, 1, 0.0, 1.0 and the usual spellings of yes and no. The
  result \<open>None\<close> stands for \<open>ValidationError\<close>.
\<close>

definition field_str :: "(string \<times> json) list \<Rightarrow> string \<Rightarrow> string option" where
  "field_str kv k = (case map_of kv k of Some (JStr s) \<Rightarrow> Some s | _ \<Rightarrow> None)"

definition field_opt_str :: "(string \<times> json) list \<Rightarrow> string \<Rightarrow> string option option" where
  "field_opt_str kv k =
     (case map_of kv k of
        None \<Rightarrow> Some None
      | Some JNull \<Rightarrow> Some None
      | Some (JStr s) \<Rightarrow> Some (Some s)
      | Some _ \<Rightarrow> None)"

definition lax_bool :: "json \<Rightarrow> bool option" where
  "lax_bool v =
     (case v of
        JBool b \<Rightarrow> Some b
      | JInt n \<Rightarrow> if n = 0 then Some False else if n = 1 then Some True else None
      | JFloat r \<Rightarrow>
          if r = ''0.0'' \<or> r = ''-0.0'' then Some False
          else if r = ''1.0'' then Some True else None
      | JStr s \<Rightarrow>
          if lower s \<in> set [''0'', ''off'', ''f'', ''false'', ''n'', ''no''] then Some False
          else if lower s \<in> set [''1'', ''on'', ''t'', ''true'', ''y'', ''yes''] then Some True
          else None
      | _ \<Rightarrow> None)"

definition field_opt_bool :: "(string \<times> json) list \<Rightarrow> string \<Rightarrow> bool option \<Rightarrow> bool option option" where
  "field_opt_bool kv k dflt =
     (case map_of kv k of
        None \<Rightarrow> Some dflt
      | Some JNull \<Rightarrow> Some None
      | Some v \<Rightarrow> (case lax_bool v of Some b \<Rightarrow> Some (Some b) | None \<Rightarrow> None))"

definition field_list :: "(json \<Rightarrow> 'a option) \<Rightarrow> (string \<times> json) list \<Rightarrow> string \<Rightarrow> 'a list option" where
  "field_list validate kv k =
     (case map_of kv k of
        None \<Rightarrow> Some []
      | Some (JArr xs) \<Rightarrow> those (map validate xs)
      | Some _ \<Rightarrow> None)"

definition validate_Company :: "json \<Rightarrow> Company option" where
  "validate_Company v =
     (case v of
        JObj kv \<Rightarrow>
          (case (field_str kv ''name'', field_str kv ''website'', field_str kv ''why_fit'') of
             (Some n, Some w, Some y) \<Rightarrow> Some \<lparr>name = n, website = w, why_fit = y\<rparr>
           | _ \<Rightarrow> None)
      | _ \<Rightarrow> None)"

definition validate_Contact :: "json \<Rightarrow> Contact option" where
  "validate_Contact v =
     (case v of
        JObj kv \<Rightarrow>
          (case (field_str kv ''name'', field_str kv ''role'', field_opt_str kv ''email'',
                 field_opt_bool kv ''inferred'' (Some False), field_opt_str kv ''source'') of
             (Some n, Some r, Some e, Some i, Some s) \<Rightarrow>
               Some \<lparr>name_c = n, role = r, email = e, inferred = i, source = s\<rparr>
           | _ \<Rightarrow> None)
      | _ \<Rightarrow> None)"

definition validate_ContactsPerCompany :: "json \<Rightarrow> ContactsPerCompany option" where
  "validate_ContactsPerCompany v =
     (case v of
        JObj kv \<Rightarrow>
          (case (field_str kv ''company'', field_list validate_Contact kv ''contacts'') of
             (Some c, Some cs) \<Rightarrow> Some \<lparr>company_c = c, contacts = cs\<rparr>
           | _ \<Rightarrow> None)
      | _ \<Rightarrow> None)"

definition validate_str :: "json \<Rightarrow> string option" where
  "validate_str v = (case v of JStr s \<Rightarrow> Some s | _ \<Rightarrow> None)"

definition validate_ResearchPerCompany :: "json \<Rightarrow> ResearchPerCompany option" where
  "validate_ResearchPerCompany v =
     (case v of
        JObj kv \<Rightarrow>
          (case (field_str kv ''company'', field_list validate_str kv ''insights'') of
             (Some c, Some is) \<Rightarrow> Some \<lparr>company_r = c, insights = is\<rparr>
           | _ \<Rightarrow> None)
      | _ \<Rightarrow> None)"

definition validate_EmailItem :: "json \<Rightarrow> EmailItem option" where
  "validate_EmailItem v =
     (case v of
        JObj kv \<Rightarrow>
          (case (field_str kv ''company'', field_str kv ''contact'',
                 field_str kv ''subject'', field_str kv ''body'') of
             (Some c, Some t, Some s, Some b) \<Rightarrow>
               Some \<lparr>company_e = c, contact = t, subject = s, body = b\<rparr>
           | _ \<Rightarrow> None)
      | _ \<Rightarrow> None)"

text \<open>
  \<open>try: payload = P(**data)\<close> \<open>except ValidationError: payload = P()\<close>, for a
  payload class \<open>P\<close> whose list field is \<open>k\<close>. Unpacking \<open>**data\<close> raises \<open>TypeError\<close>
  when \<open>data\<close> is not a dict, and nothing catches that.
\<close>

definition payload_or_empty :: "(json \<Rightarrow> 'a option) \<Rightarrow> string \<Rightarrow> json \<Rightarrow> error + 'a list" where
  "payload_or_empty validate k data =
     (case data of
        JObj kv \<Rightarrow> Inr (case field_list validate kv k of Some xs \<Rightarrow> xs | None \<Rightarrow> [])
      | _ \<Rightarrow> Inl TypeError)"

section \<open>\<open>utils.py\<close>: the Exa fallback helpers\<close>

subsection \<open>The world outside the repository\<close>

text \<open>
  A search result is an object with attributes or a dict; each of its three fields is
  \<open>None\<close> when the attribute or key is absent (or holds \<open>None\<close>), and a string
  otherwise.
\<close>

record exa_item =
  is_dict :: bool
  item_url :: "string option"
  item_title :: "string option"
  item_text :: "string option"

text \<open>
  The two methods of an Exa client. The first argument counts the requests this client
  has received before, so that the same query may be answered differently the second
  time; then come the query and \<open>num_results\<close>. \<open>None\<close> means the request raises.
\<close>

record exa_client =
  search_and_contents :: "nat \<Rightarrow> string \<Rightarrow> int \<Rightarrow> exa_item list option"
  search :: "nat \<Rightarrow> string \<Rightarrow> int \<Rightarrow> exa_item list option"

text \<open>
  Everything the code reads that is not defined in the repository's modules as they are
  loaded: the class \<open>Exa\<close> (\<open>None\<close> when the import fails; the constructor gives \<open>None\<close>
  when it raises), the environment variable \<open>EXA_API_KEY\<close>, \<open>json.loads\<close>, Python's
  \<open>str()\<close> of a value that is not a string, and the two names
  \<open>_infer_person_from_title\<close> and \<open>_infer_email\<close>, which \<open>utils.py\<close> calls but
  neither defines nor imports. A call of an unbound name raises \<open>NameError\<close>; that is the
  instance \<open>\<lambda>_. Inl NameError\<close>.
\<close>

record world =
  Exa :: "(string \<Rightarrow> exa_client option) option"
  EXA_API_KEY :: string
  json_loads :: "string \<Rightarrow> json option"
  py_str :: "json \<Rightarrow> string"
  infer_person_from_title :: "string \<Rightarrow> error + string option"
  infer_email :: "string \<Rightarrow> string \<Rightarrow> error + string option"

definition get_exa :: "world \<Rightarrow> exa_client option" where
  "get_exa w =
     (case Exa w of
        None \<Rightarrow> None
      | Some ctor \<Rightarrow> if EXA_API_KEY w = [] then None else ctor (EXA_API_KEY w))"

text \<open>
  \<open>getattr(r, f, None) or r.get(f, "")\<close>: an object whose attribute is missing, \<open>None\<close>
  or empty has no method \<open>get\<close>, which raises \<open>AttributeError\<close>.
\<close>

definition result_field :: "exa_item \<Rightarrow> (exa_item \<Rightarrow> string option) \<Rightarrow> error + string" where
  "result_field r f =
     (if is_dict r then Inr (case f r of Some s \<Rightarrow> s | None \<Rightarrow> [])
      else (case f r of
              Some s \<Rightarrow> if s \<noteq> [] then Inr s else Inl AttributeError
            | None \<Rightarrow> Inl AttributeError))"

text \<open>\<open>a or b\<close> on strings\<close>

definition str_or :: "string \<Rightarrow> string \<Rightarrow> string" where
  "str_or a b = (if a \<noteq> [] then a else b)"

subsection \<open>\<open>_domain\<close>\<close>

text \<open>
  \<open>https?://([^/]+)\<close> anchored at the start of a string, giving group 1: the longest run
  of characters other than the slash after the scheme, which must not be empty.
\<close>

definition host_after :: "string \<Rightarrow> string option" where
  "host_after s = (let g = takeWhile (\<lambda>c. c \<noteq> CHR ''/'') s in if g = [] then None else Some g)"

definition url_at :: "string \<Rightarrow> string option" where
  "url_at s =
     (if prefix ''https://'' s then host_after (drop 8 s)
      else if prefix ''http://'' s then host_after (drop 7 s)
      else None)"

fun search_url :: "string \<Rightarrow> string option" where
  "search_url [] = None"
| "search_url (c # cs) =
     (case url_at (c # cs) of Some g \<Rightarrow> Some g | None \<Rightarrow> search_url cs)"

definition domain :: "string \<Rightarrow> string" where
  "domain url = (case search_url url of Some g \<Rightarrow> g | None \<Rightarrow> url)"

subsection \<open>\<open>_brand_from_domain\<close>\<close>

definition brand_from_domain :: "string \<Rightarrow> string" where
  "brand_from_domain d =
     (let parts = filter (\<lambda>p. p \<noteq> [] \<and> lower p \<noteq> ''www'') (split CHR ''.'' d)
      in if length parts \<ge> 2 then capitalize (parts ! (length parts - 2))
         else (case parts of p # _ \<Rightarrow> capitalize p | [] \<Rightarrow> d))"

subsection \<open>\<open>_infer_company_name\<close>\<close>

text \<open>
  \<open>re.sub(r"\s*[-|\<bullet>].*$", "", title)\<close>. A match starts with a run of whitespace, then a
  hyphen, a bar or a bullet, then characters other than the line feed up to the end of
  the string or up to a line feed that is the last character. The match is removed; a
  last line feed stays.
\<close>

definition after_separator :: "string \<Rightarrow> string option" where
  "after_separator s =
     (case s of
        [] \<Rightarrow> None
      | c # cs \<Rightarrow>
          if c = CHR ''-'' \<or> c = CHR ''|'' then Some cs
          else if prefix [CHR 0xE2, CHR 0x80, CHR 0xA2] s then Some (drop 3 s)
          else None)"

definition rest_of_line :: "string \<Rightarrow> bool" where
  "rest_of_line s =
     (case dropWhile (\<lambda>c. c \<noteq> CHR 0x0A) s of [] \<Rightarrow> True | [c] \<Rightarrow> True | _ \<Rightarrow> False)"

definition suffix_at :: "string \<Rightarrow> bool" where
  "suffix_at s =
     (case after_separator (dropWhile py_isspace s) of
        Some r \<Rightarrow> rest_of_line r
      | None \<Rightarrow> False)"

fun remove_suffix :: "string \<Rightarrow> string" where
  "remove_suffix [] = []"
| "remove_suffix (c # cs) =
     (if suffix_at (c # cs) then (if last (c # cs) = CHR 0x0A then [CHR 0x0A] else [])
      else c # remove_suffix cs)"

definition infer_company_name :: "string \<Rightarrow> string \<Rightarrow> string" where
  "infer_company_name title url =
     (let clean = strip (remove_suffix title)
      in if title \<noteq> [] \<and> clean \<noteq> [] \<and> lower clean \<notin> {''home'', ''welcome''}
            \<and> \<not> search_any_ci [''cookie'', ''privacy'', ''terms'', ''login''] clean
         then clean
         else brand_from_domain (domain url))"

subsection \<open>\<open>_clean_why_fit\<close>, \<open>_extract_key_points\<close>, \<open>_excluded\<close>\<close>

definition BAD_SNIPPET_RE :: "string \<Rightarrow> bool" where
  "BAD_SNIPPET_RE s =
     search_any_ci [''cookie'', ''privacy'', ''terms'', ''javascript'', ''enable'',
                    ''old browser'', ''support'', ''consent''] s"

definition FASHION_WORDS :: "string \<Rightarrow> bool" where
  "FASHION_WORDS s =
     search_any_ci [''trend'', ''collection'', ''assort'', ''buying'', ''merchand'', ''retail'',
                    ''fashion'', ''brand'', ''ecommerce'', ''e-commerce'', ''pricing'', ''sell'',
                    ''sku'', ''inventory'', ''season''] s"

definition clean_why_fit :: "string \<Rightarrow> string \<Rightarrow> string" where
  "clean_why_fit text fallback =
     (if text = [] \<or> BAD_SNIPPET_RE text then fallback else take 160 (strip text))"

text \<open>
  \<open>re.split(r"(?<=[.!?])\s+", text)\<close>: the text is cut at every run of whitespace that
  follows a full stop, an exclamation mark or a question mark, and the run is dropped.
  \<open>gap\<close> says that such a run is being skipped; \<open>cur\<close> is the current sentence,
  reversed.
\<close>

fun split_sentences :: "bool \<Rightarrow> string \<Rightarrow> string \<Rightarrow> string list" where
  "split_sentences gap cur [] = [rev cur]"
| "split_sentences gap cur (c # cs) =
     (if py_isspace c \<and> gap then split_sentences True cur cs
      else if py_isspace c \<and> (case cur of [] \<Rightarrow> False | p # _ \<Rightarrow> p \<in> set ''.!?'')
        then rev cur # split_sentences True [] cs
      else split_sentences False (c # cur) cs)"

fun key_points :: "string option \<Rightarrow> string list \<Rightarrow> string list \<Rightarrow> string list" where
  "key_points brand [] points = points"
| "key_points brand (s # ss) points =
     (let ls = lower s
      in if (case brand of None \<Rightarrow> False
             | Some b \<Rightarrow> b \<noteq> [] \<and> \<not> contains (lower b) ls \<and> \<not> FASHION_WORDS ls)
         then key_points brand ss points
         else if 40 \<le> length s \<and> length s \<le> 200
         then key_points brand ss (points @ [strip s])
         else key_points brand ss points)"

definition extract_key_points :: "string \<Rightarrow> string option \<Rightarrow> string list" where
  "extract_key_points text brand = take 4 (key_points brand (split_sentences False [] text) [])"

definition excluded :: "string \<Rightarrow> string list \<Rightarrow> bool" where
  "excluded d exclude_domains =
     (if list_ex (\<lambda>ex. endswith (lower d) (lower ex)) exclude_domains then True
      else contains ''livetrend'' (lower d))"

subsection \<open>\<open>discover_companies_via_exa\<close>\<close>

definition generic_fit :: string where
  "generic_fit = ''Retailer/brand with ecommerce; matches targeting.''"

text \<open>
  The loop over the results. Reading a field is not inside any \<open>try\<close>, so its
  \<open>AttributeError\<close> leaves the function.
\<close>

fun discover_loop ::
  "string list \<Rightarrow> int \<Rightarrow> exa_item list \<Rightarrow> Company list \<Rightarrow> string set \<Rightarrow> error + Company list"
where
  "discover_loop ex limit [] companies seen = Inr companies"
| "discover_loop ex limit (r # rs) companies seen =
     (case result_field r item_url of
        Inl e \<Rightarrow> Inl e
      | Inr url \<Rightarrow>
     (case result_field r item_title of
        Inl e \<Rightarrow> Inl e
      | Inr title \<Rightarrow>
     (case result_field r item_text of
        Inl e \<Rightarrow> Inl e
      | Inr text \<Rightarrow>
          if excluded (domain url) ex \<or> domain url \<in> seen
          then discover_loop ex limit rs companies seen
          else if \<not> FASHION_WORDS (str_or text title)
          then discover_loop ex limit rs companies (insert (domain url) seen)
          else if limit \<le> int (length companies) + 1
          then Inr (companies @
                 [\<lparr>name = infer_company_name title url, website = url,
                   why_fit = clean_why_fit (str_or text title) generic_fit\<rparr>])
          else discover_loop ex limit rs
                 (companies @
                   [\<lparr>name = infer_company_name title url, website = url,
                     why_fit = clean_why_fit (str_or text title) generic_fit\<rparr>])
                 (insert (domain url) seen))))"

definition companies_query :: "string \<Rightarrow> string" where
  "companies_query target_desc =
     ''(fashion retailer OR apparel brand) site:*.com (buying OR merchandising OR ecommerce) -site:livetrend.co -cookie -privacy -terms -login -support ''
     @ [CHR 0xE2, CHR 0x80, CHR 0x94] @ '' '' @ target_desc"

text \<open>The result comes with the number of requests sent to the search capability.\<close>

definition discover_companies_via_exa ::
  "world \<Rightarrow> string \<Rightarrow> string \<Rightarrow> int \<Rightarrow> string list option \<Rightarrow> nat \<times> (error + CompaniesPayload)"
where
  "discover_companies_via_exa w target_desc offering_desc limit exclude_domains =
     (case get_exa w of
        None \<Rightarrow> (0, Inr [])
      | Some exa \<Rightarrow>
          (case search_and_contents exa 0 (companies_query target_desc) (limit * 2) of
             Some items \<Rightarrow>
               (1, discover_loop (case exclude_domains of None \<Rightarrow> [] | Some ex \<Rightarrow> ex)
                     limit items [] {})
           | None \<Rightarrow>
               (case search exa 1 (companies_query target_desc) (limit * 2) of
                  Some items \<Rightarrow>
                    (2, discover_loop (case exclude_domains of None \<Rightarrow> [] | Some ex \<Rightarrow> ex)
                          limit items [] {})
                | None \<Rightarrow> (2, Inr []))))"

subsection \<open>\<open>find_contacts_via_exa\<close>\<close>

definition roles :: "string list" where
  "roles = [''Head of Buying'', ''Merchandising Director'', ''VP Merchandising'', ''GTM Lead'',
            ''Partnerships Manager'', ''Product Marketing'', ''Founder'']"

text \<open>
  The results of one query, inside the \<open>try\<close>. The flag is \<open>False\<close> when an exception
  ends the block; the contacts appended before it stay in the list.
\<close>

fun contact_items ::
  "world \<Rightarrow> string \<Rightarrow> string \<Rightarrow> exa_item list \<Rightarrow> Contact list \<Rightarrow> bool \<times> Contact list"
where
  "contact_items w r d [] cts = (True, cts)"
| "contact_items w r d (x # xs) cts =
     (case result_field x item_title of
        Inl e \<Rightarrow> (False, cts)
      | Inr title \<Rightarrow>
     (case result_field x item_url of
        Inl e \<Rightarrow> (False, cts)
      | Inr url \<Rightarrow>
     (case infer_person_from_title w title of
        Inl e \<Rightarrow> (False, cts)
      | Inr None \<Rightarrow> contact_items w r d xs cts
      | Inr (Some person) \<Rightarrow>
          if person = [] then contact_items w r d xs cts
          else (case infer_email w person d of
                  Inl e \<Rightarrow> (False, cts)
                | Inr em \<Rightarrow>
                    contact_items w r d xs
                      (cts @ [\<lparr>name_c = person, role = r, email = em,
                               inferred = Some True, source = Some url\<rparr>])))))"

text \<open>
  The loop over the roles: \<open>continue\<close> after an exception skips the test that
  breaks the loop. \<open>n\<close> counts the requests sent so far.
\<close>

fun contact_roles ::
  "world \<Rightarrow> exa_client \<Rightarrow> string \<Rightarrow> string \<Rightarrow> string list \<Rightarrow> Contact list \<Rightarrow> nat
     \<Rightarrow> nat \<times> Contact list"
where
  "contact_roles w exa brand d [] cts n = (n, cts)"
| "contact_roles w exa brand d (r # rs) cts n =
     (case search exa n (r @ '' '' @ brand @ '' email OR contact'') 2 of
        None \<Rightarrow> contact_roles w exa brand d rs cts (Suc n)
      | Some items \<Rightarrow>
          (case contact_items w r d items cts of
             (False, cts') \<Rightarrow> contact_roles w exa brand d rs cts' (Suc n)
           | (True, cts') \<Rightarrow>
               if length cts' \<ge> 2 then (Suc n, cts')
               else contact_roles w exa brand d rs cts' (Suc n)))"

fun contact_companies ::
  "world \<Rightarrow> exa_client \<Rightarrow> Company list \<Rightarrow> nat \<Rightarrow> nat \<times> ContactsPerCompany list"
where
  "contact_companies w exa [] n = (n, [])"
| "contact_companies w exa (c # cs) n =
     (case contact_roles w exa (brand_from_domain (domain (website c))) (domain (website c))
             roles [] n of
        (n', cts) \<Rightarrow>
          (case contact_companies w exa cs n' of
             (n'', out) \<Rightarrow> (n'', \<lparr>company_c = name c, contacts = take 2 cts\<rparr> # out)))"

definition find_contacts_via_exa :: "world \<Rightarrow> CompaniesPayload \<Rightarrow> nat \<times> ContactsPayload" where
  "find_contacts_via_exa w companies =
     (case get_exa w of
        None \<Rightarrow> (0, [])
      | Some exa \<Rightarrow> contact_companies w exa companies 0)"

subsection \<open>\<open>collect_research_via_exa\<close>\<close>

fun add_points :: "string list \<Rightarrow> string list \<Rightarrow> string list" where
  "add_points [] ins = ins"
| "add_points (pt # pts) ins =
     add_points pts (if pt \<in> set ins then ins else ins @ [pt])"

fun research_items :: "string \<Rightarrow> exa_item list \<Rightarrow> string list \<Rightarrow> string list" where
  "research_items brand [] ins = ins"
| "research_items brand (x # xs) ins =
     (case result_field x item_text of
        Inl e \<Rightarrow> ins
      | Inr text \<Rightarrow>
          research_items brand xs (add_points (extract_key_points text (Some brand)) ins))"

fun research_queries ::
  "exa_client \<Rightarrow> string \<Rightarrow> string list \<Rightarrow> string list \<Rightarrow> nat \<Rightarrow> nat \<times> string list"
where
  "research_queries exa brand [] ins n = (n, ins)"
| "research_queries exa brand (q # qs) ins n =
     (case search_and_contents exa n q 3 of
        None \<Rightarrow> research_queries exa brand qs ins (Suc n)
      | Some items \<Rightarrow> research_queries exa brand qs (research_items brand items ins) (Suc n))"

fun research_companies ::
  "exa_client \<Rightarrow> Company list \<Rightarrow> nat \<Rightarrow> nat \<times> ResearchPerCompany list"
where
  "research_companies exa [] n = (n, [])"
| "research_companies exa (c # cs) n =
     (case research_queries exa (brand_from_domain (domain (website c)))
             [''site:'' @ domain (website c) @ '' (about OR team OR blog)'',
              ''site:reddit.com '' @ brand_from_domain (domain (website c))]
             [] n of
        (n', ins) \<Rightarrow>
          (case research_companies exa cs n' of
             (n'', out) \<Rightarrow> (n'', \<lparr>company_r = name c, insights = take 4 ins\<rparr> # out)))"

definition collect_research_via_exa :: "world \<Rightarrow> CompaniesPayload \<Rightarrow> nat \<times> ResearchPayload" where
  "collect_research_via_exa w companies =
     (case get_exa w of
        None \<Rightarrow> (0, [])
      | Some exa \<Rightarrow> research_companies exa companies 0)"

section \<open>\<open>utils.py\<close>: normalization and the template emails\<close>

subsection \<open>\<open>normalize_companies\<close>\<close>

fun normalize_loop ::
  "string list \<Rightarrow> Company list \<Rightarrow> Company list \<Rightarrow> string set \<Rightarrow> Company list"
where
  "normalize_loop ex [] clean seen = clean"
| "normalize_loop ex (c # cs) clean seen =
     (if excluded (domain (website c)) ex \<or> domain (website c) \<in> seen
      then normalize_loop ex cs clean seen
      else if \<not> FASHION_WORDS (why_fit c @ '' '' @ infer_company_name (name c) (website c))
      then normalize_loop ex cs clean (insert (domain (website c)) seen)
      else normalize_loop ex cs
             (clean @ [\<lparr>name = infer_company_name (name c) (website c), website = website c,
                        why_fit = clean_why_fit (why_fit c) generic_fit\<rparr>])
             (insert (domain (website c)) seen))"

definition normalize_companies :: "CompaniesPayload \<Rightarrow> string list option \<Rightarrow> CompaniesPayload" where
  "normalize_companies payload exclude_domains =
     normalize_loop (case exclude_domains of None \<Rightarrow> [] | Some ex \<Rightarrow> ex) payload [] {}"

subsection \<open>\<open>clean_research\<close>\<close>

fun unique_insights :: "string list \<Rightarrow> string list \<Rightarrow> string set \<Rightarrow> string list" where
  "unique_insights [] unique seen = unique"
| "unique_insights (p # ps) unique seen =
     (if lower (strip p) \<notin> seen
      then unique_insights ps (unique @ [p]) (insert (lower (strip p)) seen)
      else unique_insights ps unique seen)"

definition clean_insights :: "string list \<Rightarrow> string list" where
  "clean_insights ins =
     take 4 (unique_insights (filter (\<lambda>p. \<not> BAD_SNIPPET_RE p \<and> FASHION_WORDS p) ins) [] {})"

definition clean_research :: "ResearchPayload \<Rightarrow> ResearchPayload" where
  "clean_research payload =
     map (\<lambda>rc. \<lparr>company_r = company_r rc, insights = clean_insights (insights rc)\<rparr>) payload"

subsection \<open>\<open>generate_template_emails\<close>\<close>

definition style_hint :: "string \<Rightarrow> string" where
  "style_hint style =
     (case map_of
        [(''Professional'', ''ton professionnel, clair et concis''),
         (''Casual'', ''ton amical et conversationnel''),
         (''Cold'', ''ton direct et orient'' @ [CHR 0xC3, CHR 0xA9] @ '' ROI''),
         (''Consultative'', ''ton consultatif et orient'' @ [CHR 0xC3, CHR 0xA9] @ '' diagnostic'')]
        style of
        Some h \<Rightarrow> h
      | None \<Rightarrow> ''ton professionnel'')"

text \<open>\<open>sender.get(k, d)\<close>\<close>

definition sender_get :: "(string \<times> string) list \<Rightarrow> string \<Rightarrow> string \<Rightarrow> string" where
  "sender_get sender k d = (case map_of sender k of Some v \<Rightarrow> v | None \<Rightarrow> d)"

text \<open>The contact used for a company without contacts: its name is the French for team.\<close>

definition placeholder_contact :: Contact where
  "placeholder_contact =
     \<lparr>name_c = [CHR 0xC3, CHR 0x89] @ ''quipe'', role = ''Team'', email = None,
      inferred = Some False, source = None\<rparr>"

text \<open>
  \<open>company_to_contacts.get(comp.name) or [placeholder]\<close>. A dict comprehension keeps the
  last value given to a key, hence the reversal.
\<close>

definition targets :: "ContactsPayload \<Rightarrow> Company \<Rightarrow> Contact list" where
  "targets cts co =
     (case map_of (rev (map (\<lambda>c. (company_c c, contacts c)) cts)) (name co) of
        Some (t # ts) \<Rightarrow> t # ts
      | _ \<Rightarrow> [placeholder_contact])"

definition ins_text :: "ResearchPayload \<Rightarrow> Company \<Rightarrow> string" where
  "ins_text research co =
     (case filter (\<lambda>p. \<not> BAD_SNIPPET_RE p)
             (case map_of (rev (map (\<lambda>r. (company_r r, insights r)) research)) (name co) of
                Some ps \<Rightarrow> ps
              | None \<Rightarrow> []) of
        [] \<Rightarrow> ''\<newline>- Observation march'' @ [CHR 0xC3, CHR 0xA9] @ '' pertinente''
      | p # ps \<Rightarrow> ''\<newline>- '' @ join ''\<newline>- '' (take 2 (p # ps)))"

definition email_subject :: "string \<Rightarrow> string" where
  "email_subject brand =
     brand @ '' '' @ [CHR 0xE2, CHR 0x80, CHR 0x94] @ '' booster vos d'' @ [CHR 0xC3, CHR 0xA9]
       @ ''cisions d'achat avec la data''"

text \<open>The fixed pieces of the body, in the order of the f-string.\<close>

definition body_greeting :: string where
  "body_greeting = ''Bonjour ''"

definition body_opening :: string where
  "body_opening =
     '',\<newline>\<newline>Je me permets de vous contacter ('' @ [CHR 0xE2, CHR 0x80, CHR 0x93] @ '' ''"

definition body_on_behalf :: string where
  "body_on_behalf = '') au nom de ''"

definition body_offer :: string where
  "body_offer =
     ''. Nous aidons les '' @ [CHR 0xC3, CHR 0xA9] @ ''quipes buying/merchandising ''
     @ [CHR 0xC3, CHR 0xA0] @ '' construire des collections best-sellers gr''
     @ [CHR 0xC3, CHR 0xA2] @ ''ce '' @ [CHR 0xC3, CHR 0xA0]
     @ '' :\<newline>- analyses de tendances data-driven\<newline>- veille concurrentielle en temps r''
     @ [CHR 0xC3, CHR 0xA9]
     @ ''el\<newline>- planification d'assortiment et pricing\<newline>\<newline>Ce qui a retenu notre attention pour ''"

definition body_colon :: string where
  "body_colon = '' :''"

definition body_closing :: string where
  "body_closing =
     ''\<newline>\<newline>Ouvert '' @ [CHR 0xC3, CHR 0xA0] @ '' 15 min pour voir comment ces donn''
     @ [CHR 0xC3, CHR 0xA9] @ ''es peuvent s'' @ [CHR 0xC3, CHR 0xA9] @ ''curiser vos d''
     @ [CHR 0xC3, CHR 0xA9] @ ''cisions ?\<newline>\<newline>Bien '' @ [CHR 0xC3, CHR 0xA0] @ '' vous,\<newline>''"

definition body_dash :: string where
  "body_dash = '' '' @ [CHR 0xE2, CHR 0x80, CHR 0x94] @ '' ''"

definition email_body ::
  "string \<Rightarrow> string \<Rightarrow> (string \<times> string) list \<Rightarrow> string \<Rightarrow> string \<Rightarrow> string"
where
  "email_body ct_name hint sender brand ins =
     body_greeting @ ct_name @ body_opening @ hint @ body_on_behalf
     @ sender_get sender ''company'' ''Livetrend'' @ body_offer @ brand @ body_colon @ ins
     @ body_closing @ sender_get sender ''name'' [] @ body_dash
     @ sender_get sender ''company'' ''Livetrend''"

text \<open>The emails of one company, one for each target.\<close>

definition company_emails ::
  "ContactsPayload \<Rightarrow> ResearchPayload \<Rightarrow> (string \<times> string) list \<Rightarrow> string \<Rightarrow> Company
     \<Rightarrow> EmailItem list"
where
  "company_emails cts research sender style co =
     map (\<lambda>ct.
            \<lparr>company_e = name co, contact = name_c ct,
             subject = email_subject (brand_from_domain (domain (website co))),
             body = email_body (name_c ct) (style_hint style) sender
                      (brand_from_domain (domain (website co))) (ins_text research co)\<rparr>)
         (targets cts co)"

definition generate_template_emails ::
  "CompaniesPayload \<Rightarrow> ContactsPayload \<Rightarrow> ResearchPayload \<Rightarrow> (string \<times> string) list \<Rightarrow> string
     \<Rightarrow> EmailsPayload"
where
  "generate_template_emails companies cts research sender style =
     concat (map (company_emails cts research sender style) companies)"

section \<open>\<open>pipeline.py\<close>\<close>

text \<open>
  A stage sends the same prompt at every attempt, and the agent keeps a memory, so an
  agent is modelled by what its \<open>run\<close> does at the first, second, ... call of the stage:
  it returns an object or raises. The outcome of a stage records how many times
  \<open>agent.run\<close> was called and how many requests went to the search capability.
\<close>

type_synonym agent = "nat \<Rightarrow> error + agent_result"

record 'a outcome =
  agent_calls :: nat
  exa_calls :: nat
  result :: "error + 'a"

subsection \<open>The retry loop\<close>

text \<open>
  \<open>while attempt <= max(1, retries):\<close> with what one attempt does as the parameter \<open>step\<close>:
  the attempt raises, or gives a payload; a payload with records breaks the loop. The
  first component of the result is the number of attempts started, each of which calls
  \<open>agent.run\<close> once.
\<close>

function attempt_loop ::
  "(nat \<Rightarrow> error + 'a list) \<Rightarrow> int \<Rightarrow> nat \<Rightarrow> nat \<times> (error + 'a list)"
where
  "attempt_loop step bound attempt =
     (if int attempt \<le> bound then
        (case step attempt of
           Inl e \<Rightarrow> (Suc attempt, Inl e)
         | Inr payload \<Rightarrow>
             if payload \<noteq> [] then (Suc attempt, Inr payload)
             else attempt_loop step bound (Suc attempt))
      else (attempt, Inr []))"
  by pat_completeness auto
termination
  by (relation "measure (\<lambda>(step, bound, attempt). nat (bound + 1 - int attempt))") auto

declare attempt_loop.simps [simp del]

subsection \<open>\<open>run_company_finder\<close>\<close>

definition company_attempt :: "world \<Rightarrow> agent \<Rightarrow> nat \<Rightarrow> error + CompaniesPayload" where
  "company_attempt w agent i =
     (case agent i of
        Inl e \<Rightarrow> Inl e
      | Inr res \<Rightarrow>
          payload_or_empty validate_Company ''companies''
            (parse_json_safe (json_loads w) (response_text res) (JObj [(''companies'', JArr [])])))"

definition run_company_finder ::
  "world \<Rightarrow> agent \<Rightarrow> string \<Rightarrow> string \<Rightarrow> int \<Rightarrow> int \<Rightarrow> bool \<Rightarrow> CompaniesPayload outcome"
where
  "run_company_finder w agent target_desc offering_desc num_companies retries allow_fallbacks =
     (case attempt_loop (company_attempt w agent) (max 1 retries) 0 of
        (n, Inl e) \<Rightarrow> \<lparr>agent_calls = n, exa_calls = 0, result = Inl e\<rparr>
      | (n, Inr payload) \<Rightarrow>
          (case (if payload = [] \<and> allow_fallbacks
                 then discover_companies_via_exa w target_desc offering_desc num_companies
                        (Some [''livetrend.co''])
                 else (0, Inr payload)) of
             (m, Inl e) \<Rightarrow> \<lparr>agent_calls = n, exa_calls = m, result = Inl e\<rparr>
           | (m, Inr payload') \<Rightarrow>
               \<lparr>agent_calls = n, exa_calls = m,
                result = Inr (if payload' \<noteq> []
                              then normalize_companies payload' (Some [''livetrend.co''])
                              else payload')\<rparr>))"

subsection \<open>\<open>run_contact_finder\<close>\<close>

definition contact_attempt :: "world \<Rightarrow> agent \<Rightarrow> nat \<Rightarrow> error + ContactsPayload" where
  "contact_attempt w agent i =
     (case agent i of
        Inl e \<Rightarrow> Inl e
      | Inr res \<Rightarrow>
          payload_or_empty validate_ContactsPerCompany ''companies''
            (parse_json_safe (json_loads w) (response_text res) (JObj [(''companies'', JArr [])])))"

definition run_contact_finder ::
  "world \<Rightarrow> agent \<Rightarrow> CompaniesPayload \<Rightarrow> string \<Rightarrow> string \<Rightarrow> int \<Rightarrow> bool \<Rightarrow> ContactsPayload outcome"
where
  "run_contact_finder w agent companies target_desc offering_desc retries allow_fallbacks =
     (case attempt_loop (contact_attempt w agent) (max 1 retries) 0 of
        (n, Inl e) \<Rightarrow> \<lparr>agent_calls = n, exa_calls = 0, result = Inl e\<rparr>
      | (n, Inr payload) \<Rightarrow>
          (case (if payload = [] \<and> allow_fallbacks then find_contacts_via_exa w companies
                 else (0, payload)) of
             (m, payload') \<Rightarrow> \<lparr>agent_calls = n, exa_calls = m, result = Inr payload'\<rparr>))"

subsection \<open>\<open>run_research\<close>\<close>

definition research_attempt :: "world \<Rightarrow> agent \<Rightarrow> nat \<Rightarrow> error + ResearchPayload" where
  "research_attempt w agent i =
     (case agent i of
        Inl e \<Rightarrow> Inl e
      | Inr res \<Rightarrow>
          payload_or_empty validate_ResearchPerCompany ''companies''
            (parse_json_safe (json_loads w) (response_text res) (JObj [(''companies'', JArr [])])))"

definition run_research ::
  "world \<Rightarrow> agent \<Rightarrow> CompaniesPayload \<Rightarrow> int \<Rightarrow> bool \<Rightarrow> ResearchPayload outcome"
where
  "run_research w agent companies retries allow_fallbacks =
     (case attempt_loop (research_attempt w agent) (max 1 retries) 0 of
        (n, Inl e) \<Rightarrow> \<lparr>agent_calls = n, exa_calls = 0, result = Inl e\<rparr>
      | (n, Inr payload) \<Rightarrow>
          (case (if payload = [] \<and> allow_fallbacks then collect_research_via_exa w companies
                 else (0, payload)) of
             (m, payload') \<Rightarrow>
               \<lparr>agent_calls = n, exa_calls = m,
                result = Inr (if payload' \<noteq> [] then clean_research payload' else payload')\<rparr>))"

subsection \<open>\<open>run_email_writer\<close>\<close>

text \<open>\<open>f"- {t}"\<close>: a string is inserted as it is, any other value through \<open>str()\<close>.\<close>

definition followup_line :: "world \<Rightarrow> json \<Rightarrow> string" where
  "followup_line w t = ''- '' @ (case t of JStr s \<Rightarrow> s | _ \<Rightarrow> py_str w t)"

definition followups_block :: "world \<Rightarrow> json list \<Rightarrow> string" where
  "followups_block w fus =
     ''\<newline>\<newline>---\<newline>Follow-ups:\<newline>'' @ join ''\<newline>'' (map (followup_line w) fus)"

text \<open>
  The first loop over \<open>data["emails"]\<close>, for one element \<open>e\<close>. Adding the block to a
  body that is not a string raises \<open>TypeError\<close>.
\<close>

definition merge_followups_item :: "world \<Rightarrow> json \<Rightarrow> error + json" where
  "merge_followups_item w e =
     (case e of
        JObj kv \<Rightarrow>
          (if truthy (dict_get kv ''followups'' JNull) then
             (case dict_get kv ''followups'' JNull of
                JArr fus \<Rightarrow>
                  if fus \<noteq> [] then
                    (case dict_get kv ''body'' (JStr []) of
                       JStr b \<Rightarrow>
                         Inr (JObj (AList.update ''body'' (JStr (b @ followups_block w fus)) kv))
                     | _ \<Rightarrow> Inl TypeError)
                  else Inr e
              | _ \<Rightarrow> Inr e)
           else Inr e)
      | _ \<Rightarrow> Inr e)"

fun merge_followups_list :: "world \<Rightarrow> json list \<Rightarrow> error + json list" where
  "merge_followups_list w [] = Inr []"
| "merge_followups_list w (e # es) =
     (case merge_followups_item w e of
        Inl err \<Rightarrow> Inl err
      | Inr e' \<Rightarrow>
          (case merge_followups_list w es of
             Inl err \<Rightarrow> Inl err
           | Inr es' \<Rightarrow> Inr (e' # es')))"

text \<open>
  \<open>if isinstance(data, dict) and "emails" in data: for e in data["emails"]: ...\<close>.
  Iterating over a string or a dict gives strings, which the loop skips; iterating over
  \<open>null\<close>, a number or a boolean raises \<open>TypeError\<close>.
\<close>

definition merge_followups :: "world \<Rightarrow> json \<Rightarrow> error + json" where
  "merge_followups w data =
     (case data of
        JObj kv \<Rightarrow>
          (case map_of kv ''emails'' of
             None \<Rightarrow> Inr data
           | Some (JArr es) \<Rightarrow>
               (case merge_followups_list w es of
                  Inl err \<Rightarrow> Inl err
                | Inr es' \<Rightarrow> Inr (JObj (AList.update ''emails'' (JArr es') kv)))
           | Some (JStr s) \<Rightarrow> Inr data
           | Some (JObj d) \<Rightarrow> Inr data
           | Some _ \<Rightarrow> Inl TypeError)
      | _ \<Rightarrow> Inr data)"

text \<open>\<open>e.setdefault(k, e.get(k, ""))\<close>\<close>

definition setdefault :: "string \<Rightarrow> (string \<times> json) list \<Rightarrow> (string \<times> json) list" where
  "setdefault k kv = (case map_of kv k of None \<Rightarrow> kv @ [(k, JStr [])] | Some v \<Rightarrow> kv)"

text \<open>
  The second loop, inside the \<open>try\<close> that catches \<open>ValidationError\<close> only: an element
  that is not a dict has no \<open>setdefault\<close>, and \<open>data\<close> that is not a dict has no \<open>get\<close>.
\<close>

fun set_defaults_list :: "json list \<Rightarrow> error + json list" where
  "set_defaults_list [] = Inr []"
| "set_defaults_list (e # es) =
     (case e of
        JObj kv \<Rightarrow>
          (case set_defaults_list es of
             Inl err \<Rightarrow> Inl err
           | Inr es' \<Rightarrow> Inr (JObj (setdefault ''contact'' (setdefault ''company'' kv)) # es'))
      | _ \<Rightarrow> Inl AttributeError)"

definition set_defaults :: "json \<Rightarrow> error + json" where
  "set_defaults data =
     (case data of
        JObj kv \<Rightarrow>
          (case map_of kv ''emails'' of
             None \<Rightarrow> Inr data
           | Some (JArr es) \<Rightarrow>
               (case set_defaults_list es of
                  Inl err \<Rightarrow> Inl err
                | Inr es' \<Rightarrow> Inr (JObj (AList.update ''emails'' (JArr es') kv)))
           | Some (JStr s) \<Rightarrow> if s = [] then Inr data else Inl AttributeError
           | Some (JObj d) \<Rightarrow> if d = [] then Inr data else Inl AttributeError
           | Some _ \<Rightarrow> Inl TypeError)
      | _ \<Rightarrow> Inl AttributeError)"

text \<open>What one attempt does with the decoded \<open>data\<close>.\<close>

definition emails_of_data :: "world \<Rightarrow> json \<Rightarrow> error + EmailsPayload" where
  "emails_of_data w data =
     (case merge_followups w data of
        Inl err \<Rightarrow> Inl err
      | Inr merged \<Rightarrow>
          (case set_defaults merged of
             Inl err \<Rightarrow> Inl err
           | Inr filled \<Rightarrow> payload_or_empty validate_EmailItem ''emails'' filled))"

definition email_attempt :: "world \<Rightarrow> agent \<Rightarrow> nat \<Rightarrow> error + EmailsPayload" where
  "email_attempt w agent i =
     (case agent i of
        Inl e \<Rightarrow> Inl e
      | Inr res \<Rightarrow>
          emails_of_data w
            (parse_json_safe (json_loads w) (response_text res) (JObj [(''emails'', JArr [])])))"

definition run_email_writer ::
  "world \<Rightarrow> agent \<Rightarrow> CompaniesPayload \<Rightarrow> ContactsPayload \<Rightarrow> ResearchPayload
     \<Rightarrow> (string \<times> string) list \<Rightarrow> string \<Rightarrow> int \<Rightarrow> bool \<Rightarrow> EmailsPayload outcome"
where
  "run_email_writer w agent companies cts research sender style retries allow_fallbacks =
     (case attempt_loop (email_attempt w agent) (max 1 retries) 0 of
        (n, Inl e) \<Rightarrow> \<lparr>agent_calls = n, exa_calls = 0, result = Inl e\<rparr>
      | (n, Inr payload) \<Rightarrow>
          \<lparr>agent_calls = n, exa_calls = 0,
           result = Inr (if payload = [] \<and> allow_fallbacks
                         then generate_template_emails companies cts research sender style
                         else payload)\<rparr>)"

subsection \<open>\<open>run_quality_check\<close>\<close>

definition run_quality_check :: "world \<Rightarrow> agent \<Rightarrow> EmailsPayload \<Rightarrow> (json list) outcome" where
  "run_quality_check w agent emails =
     (if emails = [] then \<lparr>agent_calls = 0, exa_calls = 0, result = Inr []\<rparr>
      else
        \<lparr>agent_calls = 1, exa_calls = 0,
         result =
           (case agent 0 of
              Inl e \<Rightarrow> Inl e
            | Inr res \<Rightarrow>
                (case res_str res of
                   None \<Rightarrow> Inl ExternalError
                 | Some text \<Rightarrow>
                     (case parse_json_safe (json_loads w) text (JObj [(''qc'', JArr [])]) of
                        JObj kv \<Rightarrow>
                          (case dict_get kv ''qc'' (JArr []) of
                             JArr items \<Rightarrow> Inr items
                           | _ \<Rightarrow> Inr [])
                      | _ \<Rightarrow> Inl AttributeError)))\<rparr>)"

section \<open>Predicates of the properties\<close>

text \<open>
  The domains of the companies are pairwise distinct and none is excluded: what the two
  loops that collect companies maintain.
\<close>

definition kept_ok :: "string list \<Rightarrow> Company list \<Rightarrow> bool" where
  "kept_ok ex cs \<longleftrightarrow>
     distinct (map (\<lambda>c. domain (website c)) cs) \<and>
     (\<forall>c \<in> set cs. \<not> excluded (domain (website c)) ex)"



text \<open>
  The character \<open>x\<close> opens a candidate: it is an opening brace with a closing brace
  somewhere in \<open>rest\<close>, or an opening bracket with a closing bracket somewhere in \<open>rest\<close>.
\<close>

definition opens_literal :: "char \<Rightarrow> string \<Rightarrow> bool" where
  "opens_literal x rest \<longleftrightarrow>
     (x = CHR ''{'' \<and> CHR ''}'' \<in> set rest) \<or> (x = CHR ''['' \<and> CHR '']'' \<in> set rest)"

text \<open>No character of \<open>p\<close> opens a candidate in the text \<open>p @ rest\<close>.\<close>

fun no_opening :: "string \<Rightarrow> string \<Rightarrow> bool" where
  "no_opening [] rest \<longleftrightarrow> True"
| "no_opening (y # p) rest \<longleftrightarrow> \<not> opens_literal y (p @ rest) \<and> no_opening p rest"

text \<open>
  The candidate \<open>x # inner\<close>, followed by \<open>t\<close>, ends at the last closing character of
  the kind of \<open>x\<close>.
\<close>

definition ends_at_last :: "char \<Rightarrow> string \<Rightarrow> string \<Rightarrow> bool" where
  "ends_at_last x inner t \<longleftrightarrow>
     inner \<noteq> [] \<and>
     ((x = CHR ''{'' \<and> last inner = CHR ''}'' \<and> CHR ''}'' \<notin> set t) \<or>
      (x = CHR ''['' \<and> last inner = CHR '']'' \<and> CHR '']'' \<notin> set t))"

text \<open>
  The specification's wording: the first substring that is a complete literal with
  balanced braces and brackets. \<open>balanced_rest stack s\<close> reads \<open>s\<close> up to the point where
  all the closing characters expected in \<open>stack\<close> have come, in order.
\<close>

fun balanced_rest :: "string \<Rightarrow> string \<Rightarrow> string option" where
  "balanced_rest [] s = Some []"
| "balanced_rest (c # st) [] = None"
| "balanced_rest (c # st) (x # xs) =
     (if x = CHR ''{'' then map_option ((#) x) (balanced_rest (CHR ''}'' # c # st) xs)
      else if x = CHR ''['' then map_option ((#) x) (balanced_rest (CHR '']'' # c # st) xs)
      else if x = CHR ''}'' \<or> x = CHR '']''
        then (if x = c then map_option ((#) x) (balanced_rest st xs) else None)
      else map_option ((#) x) (balanced_rest (c # st) xs))"

fun first_balanced :: "string \<Rightarrow> string option" where
  "first_balanced [] = None"
| "first_balanced (x # xs) =
     (case (if x = CHR ''{'' then balanced_rest [CHR ''}''] xs
            else if x = CHR ''['' then balanced_rest [CHR '']''] xs
            else None) of
        Some r \<Rightarrow> Some (x # r)
      | None \<Rightarrow> first_balanced xs)"

section \<open>Concrete inputs\<close>

text \<open>
  The inputs at which the properties below are evaluated. \<open>decoder table\<close> is
  \<open>json.loads\<close> on the texts of the table, each listed with its decoded value; the other
  texts these examples decode are not JSON.
\<close>

definition decoder :: "(string \<times> json) list \<Rightarrow> string \<Rightarrow> json option" where
  "decoder table = map_of table"

text \<open>A world without the search capability.\<close>

definition offline :: "(string \<times> json) list \<Rightarrow> world" where
  "offline table =
     \<lparr>Exa = None, EXA_API_KEY = [], json_loads = decoder table, py_str = (\<lambda>v. []),
      infer_person_from_title = (\<lambda>t. Inl NameError),
      infer_email = (\<lambda>p d. Inl NameError)\<rparr>"

text \<open>An agent that gives the same reply at every call.\<close>

definition says :: "string \<Rightarrow> agent" where
  "says reply i =
     Inr \<lparr>res_attrs = [(''content'', Some reply)], res_items = None, res_str = Some reply\<rparr>"

definition zara :: Company where
  "zara = \<lparr>name = ''Zara'', website = ''https://www.zara.com'', why_fit = ''fashion retailer''\<rparr>"

definition livetrend_co :: Company where
  "livetrend_co = \<lparr>name = ''Livetrend'', website = ''https://livetrend.co'', why_fit = ''trend data''\<rparr>"

definition companies_reply :: string where
  \<open>companies_reply = ''{"companies": [{"name": "Zara", "website": "https://www.zara.com", "why_fit": "fashion retailer"}, {"name": "Zara FR", "website": "https://www.zara.com/fr", "why_fit": "fashion retailer"}, {"name": "Livetrend", "website": "https://livetrend.co", "why_fit": "trend data"}]}''\<close>

definition companies_value :: json where
  "companies_value =
     JObj [(''companies'', JArr
       [JObj [(''name'', JStr ''Zara''), (''website'', JStr ''https://www.zara.com''),
              (''why_fit'', JStr ''fashion retailer'')],
        JObj [(''name'', JStr ''Zara FR''), (''website'', JStr ''https://www.zara.com/fr''),
              (''why_fit'', JStr ''fashion retailer'')],
        JObj [(''name'', JStr ''Livetrend''), (''website'', JStr ''https://livetrend.co''),
              (''why_fit'', JStr ''trend data'')]])]"

text \<open>A world whose search capability answers every request with the same two results.\<close>

definition hits :: "exa_item list" where
  "hits =
     [\<lparr>is_dict = False, item_url = Some ''https://www.zara.com'',
       item_title = Some ''Zara | Official'',
       item_text = Some ''Zara sells seasonal fashion collections in retail stores.''\<rparr>,
      \<lparr>is_dict = False, item_url = Some ''https://livetrend.co'',
       item_title = Some ''Livetrend'',
       item_text = Some ''Trend analysis for fashion buying teams and retail brands.''\<rparr>]"

definition online :: "(string \<times> json) list \<Rightarrow> world" where
  "online table =
     \<lparr>Exa = Some (\<lambda>key. Some \<lparr>search_and_contents = (\<lambda>n q k. Some hits),
                                search = (\<lambda>n q k. Some hits)\<rparr>),
      EXA_API_KEY = ''key'', json_loads = decoder table, py_str = (\<lambda>v. []),
      infer_person_from_title = (\<lambda>t. Inl NameError),
      infer_email = (\<lambda>p d. Inl NameError)\<rparr>"

text \<open>
  Replies of the agents, each with the value it decodes to, and a world whose search
  capability works and in which the two names missing from \<open>utils.py\<close> are bound to
  functions that find the same person in every title.
\<close>

definition hello_email :: EmailItem where
  "hello_email = \<lparr>company_e = ''Zara'', contact = ''Ana Diaz'', subject = ''Hello'', body = ''Hi Ana''\<rparr>"

definition qc_items :: "json list" where
  "qc_items = [JObj [(''ok'', JBool True), (''notes'', JStr ''specific'')],
               JObj [(''ok'', JBool False), (''notes'', JStr ''generic'')]]"

definition qc_reply :: string where
  \<open>qc_reply = ''{"qc": [{"ok": true, "notes": "specific"}, {"ok": false, "notes": "generic"}]}''\<close>

definition said :: "string \<Rightarrow> agent_result" where
  "said reply = \<lparr>res_attrs = [(''content'', Some reply)], res_items = None, res_str = Some reply\<rparr>"

definition named :: "(string \<times> json) list \<Rightarrow> world" where
  "named table =
     \<lparr>Exa = Some (\<lambda>key. Some \<lparr>search_and_contents = (\<lambda>n q k. Some hits),
                                search = (\<lambda>n q k. Some hits)\<rparr>),
      EXA_API_KEY = ''key'', json_loads = decoder table, py_str = (\<lambda>v. []),
      infer_person_from_title = (\<lambda>t. Inr (Some ''Ana Diaz'')),
      infer_email = (\<lambda>p d. Inr (Some (''ana.diaz@'' @ d)))\<rparr>"

definition ana :: "string \<Rightarrow> string \<Rightarrow> Contact" where
  "ana r url = \<lparr>name_c = ''Ana Diaz'', role = r, email = Some ''ana.diaz@www.zara.com'',
               inferred = Some True, source = Some url\<rparr>"

definition contacts_reply :: string where
  \<open>contacts_reply = ''{"companies": [{"company": "Zara", "contacts": [{"name": "Ana Diaz", "role": "Founder"}, {"name": "Bo Li", "role": "GTM Lead"}, {"name": "Cy Roy", "role": "Sales"}]}]}''\<close>

definition contacts_value :: json where
  "contacts_value =
     JObj [(''companies'', JArr
       [JObj [(''company'', JStr ''Zara''),
              (''contacts'', JArr
                 [JObj [(''name'', JStr ''Ana Diaz''), (''role'', JStr ''Founder'')],
                  JObj [(''name'', JStr ''Bo Li''), (''role'', JStr ''GTM Lead'')],
                  JObj [(''name'', JStr ''Cy Roy''), (''role'', JStr ''Sales'')]])]])]"

definition person :: "string \<Rightarrow> string \<Rightarrow> Contact" where
  "person n r = \<lparr>name_c = n, role = r, email = None, inferred = Some False, source = None\<rparr>"










definition empty_reply :: string where
  \<open>empty_reply = ''{"companies": []}''\<close>

definition empty_world :: world where
  "empty_world = offline [(empty_reply, JObj [(''companies'', JArr [])])]"

definition two_lists :: "(string \<times> json) list" where
  "two_lists = [(''[1]'', JArr [JInt 1]), (''[2]'', JArr [JInt 2])]"

section \<open>Properties\<close>

subsection \<open>The retry loop\<close>

lemma attempt_loop_calls:
  "attempt \<le> fst (attempt_loop step bound attempt) \<and>
   fst (attempt_loop step bound attempt) \<le> max attempt (nat (bound + 1))"
proof (induction step bound attempt rule: attempt_loop.induct)
  case (1 step bound attempt)
  show ?case
  proof (cases "int attempt \<le> bound")
    case False
    then show ?thesis by (simp add: attempt_loop.simps [of step bound attempt])
  next
    case le: True
    show ?thesis
    proof (cases "step attempt")
      case (Inl e)
      with le show ?thesis by (simp add: attempt_loop.simps [of step bound attempt])
    next
      case (Inr payload)
      show ?thesis
      proof (cases "payload = []")
        case True
        with le Inr 1 [of payload] show ?thesis
          by (simp add: attempt_loop.simps [of step bound attempt])
      next
        case False
        with le Inr show ?thesis
          by (simp add: attempt_loop.simps [of step bound attempt])
      qed
    qed
  qed
qed

lemma attempt_loop_all_empty:
  assumes "\<And>i. step i = Inr []"
  shows "attempt_loop step bound attempt = (max attempt (nat (bound + 1)), Inr [])"
  using assms
proof (induction step bound attempt rule: attempt_loop.induct)
  case (1 step bound attempt)
  note empty = \<open>\<And>i. step i = Inr []\<close>
  show ?case
  proof (cases "int attempt \<le> bound")
    case False
    then have "nat (bound + 1) \<le> attempt" by linarith
    with False show ?thesis by (simp add: attempt_loop.simps [of step bound attempt] max_def)
  next
    case True
    then have le: "Suc attempt \<le> nat (bound + 1)" by linarith
    have "attempt_loop step bound attempt = attempt_loop step bound (Suc attempt)"
      by (simp add: attempt_loop.simps [of step bound attempt] True empty [of attempt])
    also have "\<dots> = (max (Suc attempt) (nat (bound + 1)), Inr [])"
      by (rule 1(1) [OF True empty [of attempt]]) (simp, rule empty)
    finally show ?thesis using le by (simp add: max_def)
  qed
qed

text \<open>A payload with records comes from the attempt that broke the loop.\<close>
lemma attempt_loop_payload:
  "attempt_loop step bound attempt = (n, Inr p) \<Longrightarrow> p \<noteq> [] \<Longrightarrow>
     \<exists>i. step i = Inr p \<and> n = Suc i \<and> attempt \<le> i \<and> int i \<le> bound"
proof (induction step bound attempt rule: attempt_loop.induct)
  case (1 step bound attempt)
  show ?case
  proof (cases "int attempt \<le> bound")
    case False
    with 1 show ?thesis by (simp add: attempt_loop.simps [of step bound attempt])
  next
    case le: True
    show ?thesis
    proof (cases "step attempt")
      case (Inl e)
      with le 1 show ?thesis by (simp add: attempt_loop.simps [of step bound attempt])
    next
      case (Inr payload)
      show ?thesis
      proof (cases "payload = []")
        case True
        with le Inr 1(2,3) have "attempt_loop step bound (Suc attempt) = (n, Inr p)"
          by (simp add: attempt_loop.simps [of step bound attempt])
        from 1(1) [OF le Inr] True this 1(3)
        obtain i where "step i = Inr p" "n = Suc i" "Suc attempt \<le> i" "int i \<le> bound"
          by auto
        then show ?thesis by (intro exI [of _ i]) simp
      next
        case False
        with le Inr 1(2) show ?thesis
          by (auto simp add: attempt_loop.simps [of step bound attempt])
      qed
    qed
  qed
qed

subsection \<open>Substrings and the exclusion test\<close>

lemma contains_iff: "contains sub s \<longleftrightarrow> (\<exists>p r. s = p @ sub @ r)"
proof (induction s)
  case Nil
  then show ?case by auto
next
  case (Cons c cs)
  show ?case
  proof
    assume "contains sub (c # cs)"
    then consider "prefix sub (c # cs)" | "contains sub cs" by auto
    then show "\<exists>p r. c # cs = p @ sub @ r"
    proof cases
      case 1
      then obtain r where "c # cs = sub @ r" by (auto simp: prefix_def)
      then have "c # cs = [] @ sub @ r" by simp
      then show ?thesis by blast
    next
      case 2
      with Cons obtain p r where "cs = p @ sub @ r" by auto
      then have "c # cs = (c # p) @ sub @ r" by simp
      then show ?thesis by blast
    qed
  next
    assume "\<exists>p r. c # cs = p @ sub @ r"
    then obtain p r where eq: "c # cs = p @ sub @ r" by auto
    show "contains sub (c # cs)"
    proof (cases p)
      case Nil
      with eq have "prefix sub (c # cs)" by (simp add: prefix_def)
      then show ?thesis by simp
    next
      case (Cons x p')
      with eq have "cs = p' @ sub @ r" by simp
      with Cons.IH have "contains sub cs" by blast
      then show ?thesis by simp
    qed
  qed
qed

lemma lower_append: "lower (a @ b) = lower a @ lower b"
  by (simp add: lower_def)

lemma contains_lower:
  assumes "contains sub s" and "lower sub = sub"
  shows "contains sub (lower s)"
proof -
  from assms(1) obtain p r where "s = p @ sub @ r" by (auto simp: contains_iff)
  then have "lower s = lower p @ sub @ lower r" by (simp add: lower_append assms(2))
  then show ?thesis unfolding contains_iff by blast
qed

lemma lower_livetrend: "lower ''livetrend'' = ''livetrend''"
  by (simp add: lower_def lower_char_def upper_letters_def lower_letters_def)

lemma excluded_livetrend: "contains ''livetrend'' d \<Longrightarrow> excluded d ex"
  by (simp add: excluded_def contains_lower lower_livetrend)

subsection \<open>Domains of the companies kept\<close>

lemma normalize_loop_inv:
  assumes "kept_ok ex clean" and "(\<lambda>c. domain (website c)) ` set clean \<subseteq> seen"
  shows "kept_ok ex (normalize_loop ex cs clean seen)"
  using assms
proof (induction cs arbitrary: clean seen)
  case Nil
  then show ?case by simp
next
  case (Cons c cs)
  let ?d = "domain (website c)"
  let ?c' = "\<lparr>name = infer_company_name (name c) (website c), website = website c,
              why_fit = clean_why_fit (why_fit c) generic_fit\<rparr>"
  show ?case
  proof (cases "excluded ?d ex \<or> ?d \<in> seen")
    case True
    with Cons show ?thesis by simp
  next
    case False
    have seen': "(\<lambda>c. domain (website c)) ` set clean \<subseteq> insert ?d seen"
      using Cons.prems(2) by auto
    show ?thesis
    proof (cases "FASHION_WORDS (why_fit c @ '' '' @ infer_company_name (name c) (website c))")
      case no: False
      with False Cons.IH [OF Cons.prems(1) seen'] show ?thesis by simp
    next
      case True
      have "kept_ok ex (clean @ [?c'])"
        using Cons.prems False by (auto simp: kept_ok_def)
      moreover have "(\<lambda>c. domain (website c)) ` set (clean @ [?c']) \<subseteq> insert ?d seen"
        using Cons.prems(2) by auto
      ultimately have "kept_ok ex (normalize_loop ex cs (clean @ [?c']) (insert ?d seen))"
        by (rule Cons.IH)
      with False True show ?thesis by simp
    qed
  qed
qed

lemma normalize_companies_ok:
  "kept_ok (case ex of None \<Rightarrow> [] | Some xs \<Rightarrow> xs) (normalize_companies payload ex)"
  unfolding normalize_companies_def by (rule normalize_loop_inv) (simp_all add: kept_ok_def)

lemma discover_loop_inv:
  assumes "kept_ok ex companies" and "(\<lambda>c. domain (website c)) ` set companies \<subseteq> seen"
    and "discover_loop ex limit rs companies seen = Inr out"
  shows "kept_ok ex out"
  using assms
proof (induction rs arbitrary: companies seen)
  case Nil
  then show ?case by simp
next
  case (Cons r rs)
  from Cons.prems(3) obtain url where u: "result_field r item_url = Inr url"
    by (cases "result_field r item_url") simp_all
  from Cons.prems(3) u obtain title where t: "result_field r item_title = Inr title"
    by (cases "result_field r item_title") simp_all
  from Cons.prems(3) u t obtain snippet where x: "result_field r item_text = Inr snippet"
    by (cases "result_field r item_text") simp_all
  note f = u t x
  let ?d = "domain url"
  let ?c' = "\<lparr>name = infer_company_name title url, website = url,
              why_fit = clean_why_fit (str_or snippet title) generic_fit\<rparr>"
  show ?case
  proof (cases "excluded ?d ex \<or> ?d \<in> seen")
    case True
    with Cons f show ?thesis by simp
  next
    case False
    have seen': "(\<lambda>c. domain (website c)) ` set companies \<subseteq> insert ?d seen"
      using Cons.prems(2) by auto
    show ?thesis
    proof (cases "FASHION_WORDS (str_or snippet title)")
      case no: False
      with False f Cons.prems(3)
      have "discover_loop ex limit rs companies (insert ?d seen) = Inr out" by simp
      with Cons.IH [OF Cons.prems(1) seen'] show ?thesis by simp
    next
      case True
      have ok: "kept_ok ex (companies @ [?c'])"
        using Cons.prems(1,2) False by (auto simp: kept_ok_def)
      have sub: "(\<lambda>c. domain (website c)) ` set (companies @ [?c']) \<subseteq> insert ?d seen"
        using Cons.prems(2) by auto
      show ?thesis
      proof (cases "limit \<le> int (length companies) + 1")
        case True
        with \<open>FASHION_WORDS (str_or snippet title)\<close> False f Cons.prems(3)
        have "out = companies @ [?c']" by simp
        with ok show ?thesis by simp
      next
        case more: False
        with True False f Cons.prems(3)
        have "discover_loop ex limit rs (companies @ [?c']) (insert ?d seen) = Inr out"
          by simp
        with Cons.IH [OF ok sub] show ?thesis by simp
      qed
    qed
  qed
qed

lemma discover_companies_ok:
  assumes "snd (discover_companies_via_exa w t off limit ex) = Inr out"
  shows "kept_ok (case ex of None \<Rightarrow> [] | Some xs \<Rightarrow> xs) out"
proof -
  let ?ex = "case ex of None \<Rightarrow> [] | Some xs \<Rightarrow> xs"
  have start: "kept_ok ?ex []"
    "(\<lambda>c. domain (website c)) ` set ([] :: Company list) \<subseteq> {}"
    by (simp_all add: kept_ok_def)
  have loop: "kept_ok ?ex out" if "discover_loop ?ex limit items [] {} = Inr out" for items
    using start that by (rule discover_loop_inv)
  show ?thesis
  proof (cases "get_exa w")
    case None
    with assms show ?thesis by (simp add: discover_companies_via_exa_def kept_ok_def)
  next
    case (Some exa)
    show ?thesis
    proof (cases "search_and_contents exa 0 (companies_query t) (limit * 2)")
      case first: (Some items)
      with Some assms show ?thesis by (simp add: discover_companies_via_exa_def loop)
    next
      case None
      show ?thesis
      proof (cases "search exa 1 (companies_query t) (limit * 2)")
        case second: (Some items)
        with Some None assms show ?thesis by (simp add: discover_companies_via_exa_def loop)
      next
        case no: None
        with Some None assms show ?thesis
          by (simp add: discover_companies_via_exa_def kept_ok_def)
      qed
    qed
  qed
qed


lemma run_company_finder_model_ok:
  assumes "result (run_company_finder w agent target_desc offering_desc num_companies retries
             allow_fallbacks) = Inr p"
    and "attempt_loop (company_attempt w agent) (max 1 retries) 0 = (n, r)"
  shows "\<exists>payload. r = Inr payload"
  using assms by (cases r) (simp_all add: run_company_finder_def)

lemma run_company_finder_fallback_ok:
  assumes "result (run_company_finder w agent target_desc offering_desc num_companies retries
             allow_fallbacks) = Inr p"
    and "attempt_loop (company_attempt w agent) (max 1 retries) 0 = (n, Inr payload)"
    and "(if payload = [] \<and> allow_fallbacks
          then discover_companies_via_exa w target_desc offering_desc num_companies
                 (Some [''livetrend.co''])
          else (0, Inr payload)) = (m, r')"
  shows "\<exists>payload'. r' = Inr payload'"
  using assms by (cases r') (simp_all add: run_company_finder_def)

lemma run_company_finder_post:
  assumes "result (run_company_finder w agent target_desc offering_desc num_companies retries
             allow_fallbacks) = Inr p" and "p \<noteq> []"
    and "attempt_loop (company_attempt w agent) (max 1 retries) 0 = (n, Inr payload)"
    and "(if payload = [] \<and> allow_fallbacks
          then discover_companies_via_exa w target_desc offering_desc num_companies
                 (Some [''livetrend.co''])
          else (0, Inr payload)) = (m, Inr payload')"
  shows "p = normalize_companies payload' (Some [''livetrend.co''])"
  using assms by (simp add: run_company_finder_def split: if_splits)

lemma run_company_finder_normalized:
  assumes res: "result (run_company_finder w agent target_desc offering_desc num_companies
             retries allow_fallbacks) = Inr p" and ne: "p \<noteq> []"
  shows "\<exists>q. p = normalize_companies q (Some [''livetrend.co''])"
proof -
  obtain n r where loop: "attempt_loop (company_attempt w agent) (max 1 retries) 0 = (n, r)"
    by (rule prod.exhaust)
  from run_company_finder_model_ok [OF res loop] obtain payload where r: "r = Inr payload" ..
  obtain m r' where fb:
    "(if payload = [] \<and> allow_fallbacks
      then discover_companies_via_exa w target_desc offering_desc num_companies
             (Some [''livetrend.co''])
      else (0, Inr payload)) = (m, r')"
    by (rule prod.exhaust)
  from run_company_finder_fallback_ok [OF res loop [unfolded r] fb]
  obtain payload' where r': "r' = Inr payload'" ..
  have "p = normalize_companies payload' (Some [''livetrend.co''])"
    by (rule run_company_finder_post [OF res ne loop [unfolded r] fb [unfolded r']])
  then show ?thesis
    by (rule exI [of "\<lambda>q. p = normalize_companies q (Some [''livetrend.co''])" payload'])
qed

text \<open>
  C8. The companies in a payload returned by \<open>run_company_finder\<close>, from the model
  and then normalized or from the Exa fallback, have pairwise distinct website domains,
  and none of these domains is excluded.
\<close>

theorem company_domains_distinct_not_excluded:
  assumes "result (run_company_finder w agent target_desc offering_desc num_companies retries
             allow_fallbacks) = Inr p"
  shows "distinct (map (\<lambda>c. domain (website c)) p) \<and>
         (\<forall>c \<in> set p. \<not> excluded (domain (website c)) [''livetrend.co''])"
proof (cases "p = []")
  case True
  then show ?thesis by simp
next
  case False
  from run_company_finder_normalized [OF assms False]
  obtain q where "p = normalize_companies q (Some [''livetrend.co''])" ..
  with normalize_companies_ok [of "Some [''livetrend.co'']" q] show ?thesis
    by (simp add: kept_ok_def)
qed

theorem company_domains_distinct_not_excluded_witness:
  "result (run_company_finder (offline [(companies_reply, companies_value)])
             (says companies_reply) ''brands'' ''data'' 5 1 True) = Inr [zara] \<and>
   distinct (map (\<lambda>c. domain (website c)) [zara]) \<and>
   \<not> excluded (domain (website zara)) [''livetrend.co'']"
proof -
  have run: "result (run_company_finder (offline [(companies_reply, companies_value)])
                       (says companies_reply) ''brands'' ''data'' 5 1 True) = Inr [zara]"
    by code_simp
  from company_domains_distinct_not_excluded [OF run] run show ?thesis by simp
qed

lemma kept_ok_no_livetrend:
  assumes "kept_ok ex cs" and "c \<in> set cs"
  shows "\<not> contains ''livetrend'' (domain (website c))"
proof
  assume "contains ''livetrend'' (domain (website c))"
  then have "excluded (domain (website c)) ex" by (rule excluded_livetrend)
  moreover from assms have "\<not> excluded (domain (website c)) ex" by (simp add: kept_ok_def)
  ultimately show False by contradiction
qed

text \<open>
  C10. Whatever the exclusion list, also the empty one or none, no company kept by
  \<open>normalize_companies\<close> or by \<open>discover_companies_via_exa\<close> has a website domain that
  contains \<open>livetrend\<close>.
\<close>

theorem livetrend_domains_discarded:
  "(\<forall>c \<in> set (normalize_companies payload ex). \<not> contains ''livetrend'' (domain (website c))) \<and>
   (\<forall>out. snd (discover_companies_via_exa w t off limit ex) = Inr out \<longrightarrow>
      (\<forall>c \<in> set out. \<not> contains ''livetrend'' (domain (website c))))"
proof (intro conjI allI impI ballI)
  fix c assume c: "c \<in> set (normalize_companies payload ex)"
  show "\<not> contains ''livetrend'' (domain (website c))"
    using normalize_companies_ok [of ex payload] c by (rule kept_ok_no_livetrend)
next
  fix out c assume out: "snd (discover_companies_via_exa w t off limit ex) = Inr out"
    and c: "c \<in> set out"
  from out have "kept_ok (case ex of None \<Rightarrow> [] | Some xs \<Rightarrow> xs) out"
    by (rule discover_companies_ok)
  then show "\<not> contains ''livetrend'' (domain (website c))"
    using c by (rule kept_ok_no_livetrend)
qed

theorem livetrend_domains_discarded_witness:
  "normalize_companies [zara, livetrend_co] None = [zara] \<and>
   snd (discover_companies_via_exa (online []) ''brands'' ''data'' 5 None) =
     Inr [\<lparr>name = ''Zara'', website = ''https://www.zara.com'',
           why_fit = ''Zara sells seasonal fashion collections in retail stores.''\<rparr>] \<and>
   \<not> contains ''livetrend'' (domain (website zara)) \<and>
   \<not> contains ''livetrend'' (domain ''https://www.zara.com'')"
proof -
  have kept: "normalize_companies [zara, livetrend_co] None = [zara]"
    by code_simp
  have found: "snd (discover_companies_via_exa (online []) ''brands'' ''data'' 5 None) =
     Inr [\<lparr>name = ''Zara'', website = ''https://www.zara.com'',
           why_fit = ''Zara sells seasonal fashion collections in retail stores.''\<rparr>]"
    by code_simp
  from livetrend_domains_discarded [of "[zara, livetrend_co]" None "online []" "''brands''"
      "''data''" 5] kept found
  show ?thesis by simp
qed

subsection \<open>Agent invocations of a stage\<close>

lemma company_calls:
  "agent_calls (run_company_finder w agent t off k retries fb) =
     fst (attempt_loop (company_attempt w agent) (max 1 retries) 0)"
proof -
  obtain n r where loop: "attempt_loop (company_attempt w agent) (max 1 retries) 0 = (n, r)"
    by (rule prod.exhaust)
  show ?thesis
  proof (cases r)
    case (Inl e)
    with loop show ?thesis by (simp add: run_company_finder_def)
  next
    case (Inr payload)
    obtain m r' where fb:
      "(if payload = [] \<and> fb
        then discover_companies_via_exa w t off k (Some [''livetrend.co''])
        else (0, Inr payload)) = (m, r')"
      by (rule prod.exhaust)
    show ?thesis
    proof (cases r')
      case e: (Inl e)
      with loop Inr fb show ?thesis by (simp add: run_company_finder_def)
    next
      case p: (Inr payload')
      with loop Inr fb show ?thesis by (simp add: run_company_finder_def)
    qed
  qed
qed

lemma contact_calls:
  "agent_calls (run_contact_finder w agent cs t off retries fb) =
     fst (attempt_loop (contact_attempt w agent) (max 1 retries) 0)"
proof -
  obtain n r where loop: "attempt_loop (contact_attempt w agent) (max 1 retries) 0 = (n, r)"
    by (rule prod.exhaust)
  show ?thesis
  proof (cases r)
    case (Inl e)
    with loop show ?thesis by (simp add: run_contact_finder_def)
  next
    case (Inr payload)
    obtain m r' where fb:
      "(if payload = [] \<and> fb then find_contacts_via_exa w cs else (0, payload)) = (m, r')"
      by (rule prod.exhaust)
    with loop Inr show ?thesis by (simp add: run_contact_finder_def)
  qed
qed

lemma research_calls:
  "agent_calls (run_research w agent cs retries fb) =
     fst (attempt_loop (research_attempt w agent) (max 1 retries) 0)"
proof -
  obtain n r where loop: "attempt_loop (research_attempt w agent) (max 1 retries) 0 = (n, r)"
    by (rule prod.exhaust)
  show ?thesis
  proof (cases r)
    case (Inl e)
    with loop show ?thesis by (simp add: run_research_def)
  next
    case (Inr payload)
    obtain m r' where fb:
      "(if payload = [] \<and> fb then collect_research_via_exa w cs else (0, payload)) = (m, r')"
      by (rule prod.exhaust)
    with loop Inr show ?thesis by (simp add: run_research_def)
  qed
qed

lemma email_calls:
  "agent_calls (run_email_writer w agent cs cts rs sender style retries fb) =
     fst (attempt_loop (email_attempt w agent) (max 1 retries) 0)"
proof -
  obtain n r where loop: "attempt_loop (email_attempt w agent) (max 1 retries) 0 = (n, r)"
    by (rule prod.exhaust)
  then show ?thesis by (cases r) (simp_all add: run_email_writer_def)
qed

lemma loop_calls_from_zero:
  "fst (attempt_loop step (max 1 retries) 0) \<le> nat (max 1 retries) + 1"
proof -
  have "fst (attempt_loop step (max 1 retries) 0) \<le> max 0 (nat (max 1 retries + 1))"
    using attempt_loop_calls [of 0 step "max 1 retries"] by simp
  also have "\<dots> = nat (max 1 retries) + 1" by simp
  finally show ?thesis .
qed

text \<open>
  C1, as amended. In each of the four stages with retries \<open>r\<close>, \<open>agent.run\<close> is called at
  most \<open>max(1, r) + 1\<close> times before the stage falls back, returns or raises: the loop
  runs while \<open>attempt <= max(1, retries)\<close>.
\<close>

theorem agent_invocations_bounded:
  "agent_calls (run_company_finder w a1 target_desc offering_desc num_companies r fb)
     \<le> nat (max 1 r) + 1 \<and>
   agent_calls (run_contact_finder w a2 companies target_desc offering_desc r fb)
     \<le> nat (max 1 r) + 1 \<and>
   agent_calls (run_research w a3 companies r fb) \<le> nat (max 1 r) + 1 \<and>
   agent_calls (run_email_writer w a4 companies cts research sender style r fb)
     \<le> nat (max 1 r) + 1"
  by (simp only: company_calls contact_calls research_calls email_calls loop_calls_from_zero
        simp_thms)

theorem agent_invocations_bounded_witness:
  "agent_calls (run_company_finder (offline []) (says ''No companies found.'') ''brands''
      ''data'' 5 3 True) \<le> 4"
  using agent_invocations_bounded [of "offline []" "says ''No companies found.''" "''brands''"
      "''data''" 5 3 True]
  by simp

text \<open>
  With \<open>retries = 0\<close> and an agent that never returns JSON the company stage calls the
  agent twice, more than \<open>r + 1 = 1\<close> times.
\<close>

theorem retries_zero_counterexample:
  "agent_calls (run_company_finder (offline []) (says ''No companies found.'') ''brands''
      ''data'' 5 0 False) = 2 \<and>
   \<not> agent_calls (run_company_finder (offline []) (says ''No companies found.'') ''brands''
      ''data'' 5 0 False) \<le> nat 0 + 1"
  by code_simp

subsection \<open>The quality check\<close>

text \<open>
  C3, as amended. \<open>run_quality_check\<close> returns the empty list, without calling the agent,
  when there is no email. Otherwise it calls the agent once and, when the reply decodes
  to a dict, returns the list stored under \<open>qc\<close> as it is, whatever its length, and the
  empty list when \<open>qc\<close> is absent or is not a list.
\<close>

theorem quality_check_output:
  "result (run_quality_check w agent []) = Inr [] \<and>
   agent_calls (run_quality_check w agent []) = 0 \<and>
   (emails \<noteq> [] \<longrightarrow> agent 0 = Inr res \<longrightarrow> res_str res = Some reply \<longrightarrow>
    parse_json_safe (json_loads w) reply (JObj [(''qc'', JArr [])]) = JObj kv \<longrightarrow>
      agent_calls (run_quality_check w agent emails) = 1 \<and>
      result (run_quality_check w agent emails) =
        Inr (case dict_get kv ''qc'' (JArr []) of JArr items \<Rightarrow> items | _ \<Rightarrow> []))"
  by (cases "dict_get kv ''qc'' (JArr [])") (simp_all add: run_quality_check_def)

theorem quality_check_output_witness:
  "[hello_email] \<noteq> [] \<and> says qc_reply 0 = Inr (said qc_reply) \<and>
   res_str (said qc_reply) = Some qc_reply \<and>
   parse_json_safe (json_loads (offline [(qc_reply, JObj [(''qc'', JArr qc_items)])])) qc_reply
     (JObj [(''qc'', JArr [])]) = JObj [(''qc'', JArr qc_items)] \<and>
   result (run_quality_check (offline [(qc_reply, JObj [(''qc'', JArr qc_items)])])
             (says qc_reply) [hello_email]) = Inr qc_items"
proof -
  let ?w = "offline [(qc_reply, JObj [(''qc'', JArr qc_items)])]"
  have a: "says qc_reply 0 = Inr (said qc_reply)" by (simp add: says_def said_def)
  have b: "res_str (said qc_reply) = Some qc_reply" by (simp add: said_def)
  have c: "parse_json_safe (json_loads ?w) qc_reply (JObj [(''qc'', JArr [])]) =
             JObj [(''qc'', JArr qc_items)]"
    by code_simp
  have d: "[hello_email] \<noteq> []" by simp
  from quality_check_output [of ?w "says qc_reply" "[hello_email]" "said qc_reply" qc_reply
      "[(''qc'', JArr qc_items)]"] a b c d
  show ?thesis by (simp add: dict_get_def)
qed

text \<open>One email, and a reply with two verdicts: both are returned.\<close>

theorem quality_check_length_counterexample:
  "result (run_quality_check (offline [(qc_reply, JObj [(''qc'', JArr qc_items)])])
             (says qc_reply) [hello_email]) = Inr qc_items \<and>
   length qc_items \<noteq> length [hello_email]"
  by code_simp

subsection \<open>Contacts per company\<close>

lemma contact_companies_bounded:
  "\<forall>pc \<in> set (snd (contact_companies w exa cs n)). length (contacts pc) \<le> 2"
proof (induction cs arbitrary: n)
  case Nil
  then show ?case by simp
next
  case (Cons c cs)
  obtain n' cts where r: "contact_roles w exa (brand_from_domain (domain (website c)))
      (domain (website c)) roles [] n = (n', cts)"
    by (rule prod.exhaust)
  obtain n'' out where o: "contact_companies w exa cs n' = (n'', out)"
    by (rule prod.exhaust)
  from Cons [of n'] o have "\<forall>pc \<in> set out. length (contacts pc) \<le> 2" by simp
  with r o show ?case by simp
qed

lemma find_contacts_bounded:
  "\<forall>pc \<in> set (snd (find_contacts_via_exa w cs)). length (contacts pc) \<le> 2"
proof (cases "get_exa w")
  case None
  then show ?thesis by (simp add: find_contacts_via_exa_def)
next
  case (Some exa)
  with contact_companies_bounded [of w exa cs 0] show ?thesis
    by (simp add: find_contacts_via_exa_def)
qed

text \<open>
  C4, as amended. A payload returned by \<open>run_contact_finder\<close> is either the payload
  validated from a reply of the model, which the code does not bound, or one in which
  every company has at most 2 contacts (the result of the Exa fallback, or the empty
  payload).
\<close>

theorem contact_lists_bounded_on_fallback:
  assumes "result (run_contact_finder w agent companies target_desc offering_desc retries
             allow_fallbacks) = Inr p"
  shows "(p \<noteq> [] \<and> (\<exists>i. contact_attempt w agent i = Inr p)) \<or>
         (\<forall>pc \<in> set p. length (contacts pc) \<le> 2)"
proof -
  obtain n r where loop: "attempt_loop (contact_attempt w agent) (max 1 retries) 0 = (n, r)"
    by (rule prod.exhaust)
  show ?thesis
  proof (cases r)
    case (Inl e)
    with loop assms show ?thesis by (simp add: run_contact_finder_def)
  next
    case (Inr payload)
    show ?thesis
    proof (cases "payload = []")
      case False
      with loop Inr assms have p: "p = payload" by (simp add: run_contact_finder_def)
      from attempt_loop_payload [OF loop [unfolded Inr] False]
      obtain i where "contact_attempt w agent i = Inr payload" by auto
      with p False show ?thesis by auto
    next
      case True
      show ?thesis
      proof (cases allow_fallbacks)
        case False
        with True loop Inr assms have "p = []" by (simp add: run_contact_finder_def)
        then show ?thesis by simp
      next
        case fb: True
        obtain m q where f: "find_contacts_via_exa w companies = (m, q)" by (rule prod.exhaust)
        with fb True loop Inr assms have "p = q" by (simp add: run_contact_finder_def)
        with find_contacts_bounded [of w companies] f show ?thesis by simp
      qed
    qed
  qed
qed

theorem contact_lists_bounded_on_fallback_witness:
  "result (run_contact_finder (named []) (says ''No contacts found.'') [zara] ''brands''
             ''data'' 1 True) =
     Inr [\<lparr>company_c = ''Zara'',
           contacts = [ana ''Head of Buying'' ''https://www.zara.com'',
                       ana ''Head of Buying'' ''https://livetrend.co'']\<rparr>] \<and>
   (([\<lparr>company_c = ''Zara'',
           contacts = [ana ''Head of Buying'' ''https://www.zara.com'',
                       ana ''Head of Buying'' ''https://livetrend.co'']\<rparr>] \<noteq> [] \<and>
     (\<exists>i. contact_attempt (named []) (says ''No contacts found.'') i =
        Inr [\<lparr>company_c = ''Zara'',
           contacts = [ana ''Head of Buying'' ''https://www.zara.com'',
                       ana ''Head of Buying'' ''https://livetrend.co'']\<rparr>])) \<or>
    (\<forall>pc \<in> set [\<lparr>company_c = ''Zara'',
           contacts = [ana ''Head of Buying'' ''https://www.zara.com'',
                       ana ''Head of Buying'' ''https://livetrend.co'']\<rparr>].
       length (contacts pc) \<le> 2))"
proof -
  have run: "result (run_contact_finder (named []) (says ''No contacts found.'') [zara]
             ''brands'' ''data'' 1 True) =
     Inr [\<lparr>company_c = ''Zara'',
           contacts = [ana ''Head of Buying'' ''https://www.zara.com'',
                       ana ''Head of Buying'' ''https://livetrend.co'']\<rparr>]"
    by code_simp
  show ?thesis
    by (rule conjI [OF run contact_lists_bounded_on_fallback [OF run]])
qed

text \<open>A reply of the model with three contacts for one company is returned as it is.\<close>

theorem model_contacts_counterexample:
  "result (run_contact_finder (offline [(contacts_reply, contacts_value)]) (says contacts_reply)
             [zara] ''brands'' ''data'' 1 True) =
     Inr [\<lparr>company_c = ''Zara'',
           contacts = [person ''Ana Diaz'' ''Founder'', person ''Bo Li'' ''GTM Lead'',
                       person ''Cy Roy'' ''Sales'']\<rparr>] \<and>
   \<not> length [person ''Ana Diaz'' ''Founder'', person ''Bo Li'' ''GTM Lead'',
              person ''Cy Roy'' ''Sales''] \<le> 2"
  by code_simp

subsection \<open>Length of the research insights\<close>
















subsection \<open>Follow-ups in the email stage\<close>













subsection \<open>The template emails\<close>











subsection \<open>The stages on an empty company payload\<close>

lemma attempt_loop_runs_once:
  assumes "int attempt \<le> bound"
  shows "Suc attempt \<le> fst (attempt_loop step bound attempt)"
proof (cases "step attempt")
  case (Inl e)
  with assms show ?thesis by (simp add: attempt_loop.simps [of step bound attempt])
next
  case (Inr payload)
  show ?thesis
  proof (cases "payload = []")
    case True
    with assms Inr attempt_loop_calls [of "Suc attempt" step bound] show ?thesis
      by (simp add: attempt_loop.simps [of step bound attempt])
  next
    case False
    with assms Inr show ?thesis by (simp add: attempt_loop.simps [of step bound attempt])
  qed
qed

lemma stage_runs_once: "1 \<le> fst (attempt_loop step (max 1 retries) 0)"
  using attempt_loop_runs_once [of 0 "max 1 retries" step] by simp

lemma contact_no_search:
  assumes "get_exa w = None"
  shows "exa_calls (run_contact_finder w agent cs t off retries fb) = 0"
proof -
  obtain n r where loop: "attempt_loop (contact_attempt w agent) (max 1 retries) 0 = (n, r)"
    by (rule prod.exhaust)
  show ?thesis
  proof (cases r)
    case (Inl e)
    with loop show ?thesis by (simp add: run_contact_finder_def)
  next
    case (Inr payload)
    with loop assms show ?thesis
      by (simp add: run_contact_finder_def find_contacts_via_exa_def)
  qed
qed

lemma research_no_search:
  assumes "get_exa w = None"
  shows "exa_calls (run_research w agent cs retries fb) = 0"
proof -
  obtain n r where loop: "attempt_loop (research_attempt w agent) (max 1 retries) 0 = (n, r)"
    by (rule prod.exhaust)
  show ?thesis
  proof (cases r)
    case (Inl e)
    with loop show ?thesis by (simp add: run_research_def)
  next
    case (Inr payload)
    with loop assms show ?thesis
      by (simp add: run_research_def collect_research_via_exa_def)
  qed
qed

lemma email_no_search:
  "exa_calls (run_email_writer w agent cs cts rs sender style retries fb) = 0"
proof -
  obtain n r where loop: "attempt_loop (email_attempt w agent) (max 1 retries) 0 = (n, r)"
    by (rule prod.exhaust)
  then show ?thesis by (cases r) (simp_all add: run_email_writer_def)
qed

lemma company_stage_empty:
  assumes "get_exa w = None"
    and "\<And>i. a1 i = Inr (r1 i)"
    and "\<And>i. json_loads w (response_text (r1 i)) = Some (JObj [(''companies'', JArr [])])"
  shows "run_company_finder w a1 t off k 1 True =
           \<lparr>agent_calls = 2, exa_calls = 0, result = Inr []\<rparr>"
proof -
  have "company_attempt w a1 i = Inr []" for i
    using assms(2) [of i] assms(3) [of i]
    by (simp add: company_attempt_def parse_json_safe_def payload_or_empty_def field_list_def)
  then have "attempt_loop (company_attempt w a1) (max 1 1) 0 = (max 0 (nat (max 1 1 + 1)), Inr [])"
    by (rule attempt_loop_all_empty)
  with assms(1) show ?thesis
    by (simp add: run_company_finder_def discover_companies_via_exa_def)
qed

lemma contact_stage_empty:
  assumes "get_exa w = None" and "\<And>i. contact_attempt w a2 i = Inr []"
  shows "result (run_contact_finder w a2 cs t off 1 True) = Inr []"
proof -
  have "attempt_loop (contact_attempt w a2) (max 1 1) 0 = (max 0 (nat (max 1 1 + 1)), Inr [])"
    using assms(2) by (rule attempt_loop_all_empty)
  with assms(1) show ?thesis
    by (simp add: run_contact_finder_def find_contacts_via_exa_def)
qed

lemma research_stage_empty:
  assumes "get_exa w = None" and "\<And>i. research_attempt w a3 i = Inr []"
  shows "result (run_research w a3 cs 1 True) = Inr []"
proof -
  have "attempt_loop (research_attempt w a3) (max 1 1) 0 = (max 0 (nat (max 1 1 + 1)), Inr [])"
    using assms(2) by (rule attempt_loop_all_empty)
  with assms(1) show ?thesis
    by (simp add: run_research_def collect_research_via_exa_def)
qed

lemma email_stage_empty:
  assumes "\<And>i. email_attempt w a4 i = Inr []"
  shows "result (run_email_writer w a4 [] cts rs sender style 1 True) = Inr []"
proof -
  have "attempt_loop (email_attempt w a4) (max 1 1) 0 = (max 0 (nat (max 1 1 + 1)), Inr [])"
    using assms by (rule attempt_loop_all_empty)
  then show ?thesis
    by (simp add: run_email_writer_def generate_template_emails_def)
qed

text \<open>
  C5, as amended. If the model returns \<open>{"companies": []}\<close> at every attempt of company
  discovery with \<open>retries = 1\<close>, fallbacks enabled and no search capability, then the
  company stage ends with the empty payload after two calls of its agent and no search
  request. The contact, research and email stages, given zero companies, send no search
  request either, but each calls its own agent at least once; each returns the empty
  payload when every attempt of its agent gives no record.
\<close>

theorem empty_discovery_scenario:
  assumes "get_exa w = None"
    and "\<And>i. a1 i = Inr (r1 i)"
    and "\<And>i. json_loads w (response_text (r1 i)) = Some (JObj [(''companies'', JArr [])])"
  shows "run_company_finder w a1 target_desc offering_desc num_companies 1 True =
           \<lparr>agent_calls = 2, exa_calls = 0, result = Inr []\<rparr> \<and>
         1 \<le> agent_calls (run_contact_finder w a2 [] target_desc offering_desc 1 True) \<and>
         exa_calls (run_contact_finder w a2 [] target_desc offering_desc 1 True) = 0 \<and>
         1 \<le> agent_calls (run_research w a3 [] 1 True) \<and>
         exa_calls (run_research w a3 [] 1 True) = 0 \<and>
         1 \<le> agent_calls (run_email_writer w a4 [] cts research sender style 1 True) \<and>
         exa_calls (run_email_writer w a4 [] cts research sender style 1 True) = 0 \<and>
         ((\<forall>i. contact_attempt w a2 i = Inr []) \<longrightarrow>
            result (run_contact_finder w a2 [] target_desc offering_desc 1 True) = Inr []) \<and>
         ((\<forall>i. research_attempt w a3 i = Inr []) \<longrightarrow>
            result (run_research w a3 [] 1 True) = Inr []) \<and>
         ((\<forall>i. email_attempt w a4 i = Inr []) \<longrightarrow>
            result (run_email_writer w a4 [] cts research sender style 1 True) = Inr [])"
proof (intro conjI impI)
  show "run_company_finder w a1 target_desc offering_desc num_companies 1 True =
           \<lparr>agent_calls = 2, exa_calls = 0, result = Inr []\<rparr>"
    using assms by (rule company_stage_empty)
  show "1 \<le> agent_calls (run_contact_finder w a2 [] target_desc offering_desc 1 True)"
    by (simp only: contact_calls stage_runs_once)
  show "exa_calls (run_contact_finder w a2 [] target_desc offering_desc 1 True) = 0"
    using assms(1) by (rule contact_no_search)
  show "1 \<le> agent_calls (run_research w a3 [] 1 True)"
    by (simp only: research_calls stage_runs_once)
  show "exa_calls (run_research w a3 [] 1 True) = 0"
    using assms(1) by (rule research_no_search)
  show "1 \<le> agent_calls (run_email_writer w a4 [] cts research sender style 1 True)"
    by (simp only: email_calls stage_runs_once)
  show "exa_calls (run_email_writer w a4 [] cts research sender style 1 True) = 0"
    by (rule email_no_search)
next
  assume "\<forall>i. contact_attempt w a2 i = Inr []"
  then have "contact_attempt w a2 i = Inr []" for i by simp
  with assms(1) show "result (run_contact_finder w a2 [] target_desc offering_desc 1 True) = Inr []"
    by (rule contact_stage_empty)
next
  assume "\<forall>i. research_attempt w a3 i = Inr []"
  then have "research_attempt w a3 i = Inr []" for i by simp
  with assms(1) show "result (run_research w a3 [] 1 True) = Inr []"
    by (rule research_stage_empty)
next
  assume "\<forall>i. email_attempt w a4 i = Inr []"
  then have "email_attempt w a4 i = Inr []" for i by simp
  then show "result (run_email_writer w a4 [] cts research sender style 1 True) = Inr []"
    by (rule email_stage_empty)
qed

theorem empty_discovery_scenario_witness:
  "get_exa empty_world = None \<and>
   (\<forall>i. says empty_reply i = Inr (said empty_reply)) \<and>
   json_loads empty_world (response_text (said empty_reply)) =
     Some (JObj [(''companies'', JArr [])]) \<and>
   run_company_finder empty_world (says empty_reply) ''brands'' ''data'' 5 1 True =
     \<lparr>agent_calls = 2, exa_calls = 0, result = Inr []\<rparr> \<and>
   1 \<le> agent_calls (run_contact_finder empty_world (says ''No contacts found.'') []
          ''brands'' ''data'' 1 True) \<and>
   exa_calls (run_contact_finder empty_world (says ''No contacts found.'') []
          ''brands'' ''data'' 1 True) = 0 \<and>
   (\<forall>i. contact_attempt empty_world (says ''No contacts found.'') i = Inr []) \<and>
   result (run_contact_finder empty_world (says ''No contacts found.'') []
          ''brands'' ''data'' 1 True) = Inr []"
proof -
  have off: "get_exa empty_world = None" by code_simp
  have a: "says empty_reply i = Inr (said empty_reply)" for i
    by (simp add: says_def said_def)
  have d: "json_loads empty_world (response_text (said empty_reply)) =
             Some (JObj [(''companies'', JArr [])])"
    by code_simp
  have silent: "contact_attempt empty_world (says ''No contacts found.'') i = Inr []" for i
    by code_simp
  note t = empty_discovery_scenario [of empty_world "says empty_reply" "\<lambda>i. said empty_reply",
      OF off a d, where ?a2.0 = "says ''No contacts found.''" and target_desc = "''brands''"
      and offering_desc = "''data''" and num_companies = 5]
  note t1 = t [THEN conjunct1]
  note t2 = t [THEN conjunct2, THEN conjunct1]
  note t3 = t [THEN conjunct2, THEN conjunct2, THEN conjunct1]
  note t8 = t [THEN conjunct2, THEN conjunct2, THEN conjunct2, THEN conjunct2, THEN conjunct2,
      THEN conjunct2, THEN conjunct2, THEN conjunct1, THEN mp, OF allI [OF silent]]
  show ?thesis
    by (rule conjI [OF off conjI [OF allI [OF a] conjI [OF d conjI [OF t1 conjI [OF t2
          conjI [OF t3 conjI [OF allI [OF silent] t8]]]]]]])
qed

text \<open>
  With zero companies the contact stage calls its agent twice, and a reply that lists
  contacts is returned.
\<close>

theorem downstream_agent_counterexample:
  "agent_calls (run_contact_finder (offline []) (says ''No contacts found.'') [] ''brands''
      ''data'' 1 True) = 2 \<and>
   result (run_contact_finder (offline [(contacts_reply, contacts_value)]) (says contacts_reply)
             [] ''brands'' ''data'' 1 True) =
     Inr [\<lparr>company_c = ''Zara'',
           contacts = [person ''Ana Diaz'' ''Founder'', person ''Bo Li'' ''GTM Lead'',
                       person ''Cy Roy'' ''Sales'']\<rparr>]"
  by code_simp

subsection \<open>The candidate of \<open>parse_json_safe\<close>\<close>

lemma upto_last_None: "c \<notin> set xs \<Longrightarrow> upto_last c xs = None"
  by (induction xs) auto

lemma upto_last_Some:
  "inner \<noteq> [] \<Longrightarrow> last inner = c \<Longrightarrow> c \<notin> set t \<Longrightarrow> upto_last c (inner @ t) = Some inner"
proof (induction inner)
  case Nil
  then show ?case by simp
next
  case (Cons a inner)
  show ?case
  proof (cases "inner = []")
    case True
    with Cons.prems show ?thesis by (simp add: upto_last_None)
  next
    case False
    with Cons show ?thesis by simp
  qed
qed

lemma literal_at_ends:
  assumes "ends_at_last x inner t"
  shows "literal_at (x # inner @ t) = Some (x # inner)"
proof -
  from assms consider
    (brace) "x = CHR ''{''" "inner \<noteq> []" "last inner = CHR ''}''" "CHR ''}'' \<notin> set t"
    | (bracket) "x = CHR ''[''" "inner \<noteq> []" "last inner = CHR '']''" "CHR '']'' \<notin> set t"
    by (auto simp: ends_at_last_def)
  then show ?thesis
  proof cases
    case brace
    from upto_last_Some [OF brace(2,3,4)] brace(1) show ?thesis by (simp add: literal_at_def)
  next
    case bracket
    from upto_last_Some [OF bracket(2,3,4)] bracket(1) show ?thesis by (simp add: literal_at_def)
  qed
qed

lemma literal_at_None: "\<not> opens_literal y rest \<Longrightarrow> literal_at (y # rest) = None"
  by (auto simp: opens_literal_def literal_at_def upto_last_None)

lemma search_literal_skip: "no_opening p rest \<Longrightarrow> search_literal (p @ rest) = search_literal rest"
  by (induction p) (simp_all add: literal_at_None)

lemma search_literal_found:
  assumes "no_opening p (x # inner @ t)" and "ends_at_last x inner t"
  shows "search_literal (p @ x # inner @ t) = Some (x # inner)"
proof -
  have "search_literal (p @ x # inner @ t) = search_literal (x # inner @ t)"
    using assms(1) by (rule search_literal_skip)
  also have "\<dots> = Some (x # inner)" using literal_at_ends [OF assms(2)] by simp
  finally show ?thesis .
qed

lemma search_literal_none: "no_opening s [] \<Longrightarrow> search_literal s = None"
  using search_literal_skip [of s "[]"] by simp

text \<open>
  C2, as amended. \<open>parse_json_safe\<close> always returns a value: the default for the empty
  text; the decoded text when the whole text decodes; otherwise what decodes from the
  candidate that starts at the first opening brace or bracket with a closing character
  of its kind somewhere after it and ends at the last such closing character, or the
  default when the candidate does not decode; the default when there is no candidate.
\<close>

theorem parse_json_safe_cases:
  "(s = [] \<longrightarrow> parse_json_safe loads s d = d) \<and>
   (s \<noteq> [] \<longrightarrow> loads s = Some v \<longrightarrow> parse_json_safe loads s d = v) \<and>
   (s = p @ x # inner @ t \<longrightarrow> loads s = None \<longrightarrow> no_opening p (x # inner @ t) \<longrightarrow>
      ends_at_last x inner t \<longrightarrow>
      parse_json_safe loads s d = (case loads (x # inner) of Some u \<Rightarrow> u | None \<Rightarrow> d)) \<and>
   (loads s = None \<longrightarrow> no_opening s [] \<longrightarrow> parse_json_safe loads s d = d)"
proof (intro conjI impI)
  assume "s = []"
  then show "parse_json_safe loads s d = d" by (simp add: parse_json_safe_def)
next
  assume "s \<noteq> []" and "loads s = Some v"
  then show "parse_json_safe loads s d = v" by (simp add: parse_json_safe_def)
next
  assume s: "s = p @ x # inner @ t" and none: "loads s = None"
    and "no_opening p (x # inner @ t)" and "ends_at_last x inner t"
  then have "search_literal s = Some (x # inner)" by (simp add: search_literal_found)
  moreover from s have "s \<noteq> []" by simp
  ultimately show "parse_json_safe loads s d = (case loads (x # inner) of Some u \<Rightarrow> u | None \<Rightarrow> d)"
    using none by (simp add: parse_json_safe_def)
next
  assume none: "loads s = None" and "no_opening s []"
  then have "search_literal s = None" by (simp add: search_literal_none)
  with none show "parse_json_safe loads s d = d" by (simp add: parse_json_safe_def)
qed

theorem parse_json_safe_cases_witness:
  "''Sure: [1] ok'' = ''Sure: '' @ CHR ''['' # ''1]'' @ '' ok'' \<and>
   decoder two_lists ''Sure: [1] ok'' = None \<and>
   no_opening ''Sure: '' (CHR ''['' # ''1]'' @ '' ok'') \<and>
   ends_at_last CHR ''['' ''1]'' '' ok'' \<and>
   decoder two_lists (CHR ''['' # ''1]'') = Some (JArr [JInt 1]) \<and>
   parse_json_safe (decoder two_lists) ''Sure: [1] ok'' JNull = JArr [JInt 1]"
proof -
  have h1: "''Sure: [1] ok'' = ''Sure: '' @ CHR ''['' # ''1]'' @ '' ok''" by simp
  have h2: "decoder two_lists ''Sure: [1] ok'' = None" by code_simp
  have h3: "no_opening ''Sure: '' (CHR ''['' # ''1]'' @ '' ok'')" by code_simp
  have h4: "ends_at_last CHR ''['' ''1]'' '' ok''" by code_simp
  have h5: "decoder two_lists (CHR ''['' # ''1]'') = Some (JArr [JInt 1])" by code_simp
  note t = parse_json_safe_cases [where s = "''Sure: [1] ok''" and p = "''Sure: ''"
      and x = "CHR ''[''" and inner = "''1]''" and t = "'' ok''" and loads = "decoder two_lists"
      and d = JNull, THEN conjunct2, THEN conjunct2, THEN conjunct1, THEN mp, THEN mp,
      THEN mp, THEN mp, OF h1 h2 h3 h4]
  from t h5 have h6: "parse_json_safe (decoder two_lists) ''Sure: [1] ok'' JNull = JArr [JInt 1]"
    by simp
  show ?thesis
    by (rule conjI [OF h1 conjI [OF h2 conjI [OF h3 conjI [OF h4 conjI [OF h5 h6]]]]])
qed

text \<open>
  A text with two lists: the first balanced literal is \<open>[1]\<close> and decodes, but the
  candidate runs from the first opening bracket to the last closing one, does not
  decode, and the default comes back.
\<close>

theorem first_balanced_counterexample:
  "decoder two_lists ''a [1] b [2]'' = None \<and>
   first_balanced ''a [1] b [2]'' = Some ''[1]'' \<and>
   decoder two_lists ''[1]'' = Some (JArr [JInt 1]) \<and>
   search_literal ''a [1] b [2]'' = Some ''[1] b [2]'' \<and>
   parse_json_safe (decoder two_lists) ''a [1] b [2]'' JNull = JNull \<and>
   parse_json_safe (decoder two_lists) ''a [1] b [2]'' JNull \<noteq> JArr [JInt 1]"
  by code_simp

end
